theory Spec2Isabelle
  imports Complex_Main "HOL-Library.Monad_Syntax"
begin

section \<open>Numbers, arrays and the random source\<close>

text \<open>
  The pipeline of \<^verbatim>\<open>lib/lob-data\<close> (\<^verbatim>\<open>generateLOBData\<close>, \<^verbatim>\<open>calculateFeatures\<close>,
  \<^verbatim>\<open>runTimeSeriesAnalysis\<close>, \<^verbatim>\<open>gaussianRandom\<close>) computes on JavaScript numbers.
  They are embedded as \<^typ>\<open>real\<close>: every arithmetic step is the exact operation, so the
  rounding error of IEEE doubles is not modelled, and the values \<^verbatim>\<open>NaN\<close>,
  \<^verbatim>\<open>Infinity\<close> and \<^verbatim>\<open>undefined\<close> have no counterpart. The source produces them by
  dividing by a data value that is zero, by dividing by an array length that is zero, by
  reading \<^verbatim>\<open>history[history.length - 1]\<close> of an empty history, and by a simulated
  price that grows beyond the range of a double (\<^verbatim>\<open>Infinity\<close>, and then \<^verbatim>\<open>NaN\<close> from
  \<^verbatim>\<open>Infinity - Infinity\<close>, which \<^verbatim>\<open>Math.max(., 1.0)\<close> lets through); a statement below
  that depends on such a value carries the hypothesis that excludes it. A double also
  breaks an exact tie of \<^verbatim>\<open>Math.round\<close> by its own rounding error, where the embedding
  rounds the exact value up.

  A timestamp is embedded as the number of milliseconds after \<^verbatim>\<open>startTime\<close>; its
  rendering by \<^verbatim>\<open>toISOString\<close> is left out.

  \<^verbatim>\<open>Math.random\<close> is a stream \<open>rnd\<close> of numbers together with the position of the next
  draw; the position is threaded through every function that draws.
\<close>

definition Math_round :: "real \<Rightarrow> real" where
  \<comment> \<open>\<^verbatim>\<open>Math.round\<close>: the nearest integer, a tie going up.\<close>
  "Math_round x = of_int \<lfloor>x + 1 / 2\<rfloor>"

definition Math_floor :: "real \<Rightarrow> real" where
  "Math_floor x = of_int \<lfloor>x\<rfloor>"

definition Math_random :: "(nat \<Rightarrow> real) \<Rightarrow> nat \<Rightarrow> real \<times> nat" where
  "Math_random rnd k = (rnd k, Suc k)"

definition slice :: "nat \<Rightarrow> nat \<Rightarrow> 'a list \<Rightarrow> 'a list" where
  \<comment> \<open>\<^verbatim>\<open>xs.slice(a, b)\<close> for \<open>0 \<le> a\<close>, \<open>0 \<le> b\<close>.\<close>
  "slice a b xs = take (b - a) (drop a xs)"

definition slice_last :: "nat \<Rightarrow> 'a list \<Rightarrow> 'a list" where
  \<comment> \<open>\<^verbatim>\<open>xs.slice(-n)\<close>: the last \<open>n\<close> elements, all of them when there are fewer.\<close>
  "slice_last n xs = drop (length xs - n) xs"

definition reduce_idx :: "('b \<Rightarrow> 'a \<Rightarrow> nat \<Rightarrow> 'a list \<Rightarrow> 'b) \<Rightarrow> 'b \<Rightarrow> 'a list \<Rightarrow> 'b" where
  \<comment> \<open>\<^verbatim>\<open>arr.reduce((s, p, j, arr) => ..., init)\<close>.\<close>
  "reduce_idx f init arr = fold (\<lambda>j s. f s (arr ! j) j arr) [0..<length arr] init"

definition map_idx :: "('a \<Rightarrow> nat \<Rightarrow> 'b) \<Rightarrow> 'a list \<Rightarrow> 'b list" where
  \<comment> \<open>\<^verbatim>\<open>arr.map((p, i) => ...)\<close>.\<close>
  "map_idx f arr = map (\<lambda>i. f (arr ! i) i) [0..<length arr]"

section \<open>Types\<close>

record OrderLevel =
  price :: real
  size_l :: real
  orders :: real

datatype side = Buy | Sell

record Trade =
  price_t :: real
  size_t :: real
  side_t :: side

record LOBRecord =
  timestamp :: int
  symbol :: string
  midPrice :: real
  spread :: real
  bidLevels :: "OrderLevel list"
  askLevels :: "OrderLevel list"
  totalBidVolume :: real
  totalAskVolume :: real
  orderImbalance :: real
  volatility :: real
  lastTrade :: Trade

section \<open>gaussianRandom\<close>

text \<open>
  \<^verbatim>\<open>let u = 0; while (u === 0) u = Math.random()\<close>. The loop runs for as long as the
  source returns \<open>0\<close>, so it is a partial function: \<open>None\<close> is the run that never
  leaves the loop.
\<close>

partial_function (option) random_nonzero :: "(nat \<Rightarrow> real) \<Rightarrow> nat \<Rightarrow> (real \<times> nat) option" where
  "random_nonzero rnd k =
     (case Math_random rnd k of (u, k') \<Rightarrow>
        if u = 0 then random_nonzero rnd k' else Some (u, k'))"

definition gaussianRandom :: "(nat \<Rightarrow> real) \<Rightarrow> nat \<Rightarrow> (real \<times> nat) option" where
  "gaussianRandom rnd k = do {
     (u, k1) \<leftarrow> random_nonzero rnd k;
     (v, k2) \<leftarrow> random_nonzero rnd k1;
     Some (sqrt (- 2 * ln u) * cos (2 * pi * v), k2)
   }"

section \<open>generateLOBData\<close>

abbreviation basePrice :: real where "basePrice \<equiv> 150"
abbreviation volatility_c :: real where "volatility_c \<equiv> 0.0002"
abbreviation spreadBase :: real where "spreadBase \<equiv> 0.01"
abbreviation volatilityPersistence :: real where "volatilityPersistence \<equiv> 0.95"

text \<open>
  The inner loop \<^verbatim>\<open>for (let level = 0; level < 5; level++)\<close>. Each round draws, in this
  order, the noise of the bid size, the bid order count, the noise of the ask size and the
  ask order count, and pushes one level on each side.
\<close>

function levels_loop ::
  "(nat \<Rightarrow> real) \<Rightarrow> real \<Rightarrow> real \<Rightarrow> real \<Rightarrow> nat \<Rightarrow> nat \<Rightarrow> OrderLevel list \<Rightarrow> OrderLevel list
   \<Rightarrow> (OrderLevel list \<times> OrderLevel list \<times> nat) option" where
  "levels_loop rnd currentPrice spread' imbalance level k bids asks =
     (if level < 5 then do {
        let levelOffset = spread' / 2 + real level * spread' * 0.5;
        (g1, k1) \<leftarrow> gaussianRandom rnd k;
        let (r1, k2) = Math_random rnd k1;
        let bid = \<lparr>price = Math_round ((currentPrice - levelOffset) * 100) / 100,
                   size_l = max 100 (Math_round (g1 * 200 + 500 * (1 - imbalance * 0.3) * (1 - real level * 0.15))),
                   orders = Math_floor (r1 * 10) + 1\<rparr>;
        (g2, k3) \<leftarrow> gaussianRandom rnd k2;
        let (r2, k4) = Math_random rnd k3;
        let ask = \<lparr>price = Math_round ((currentPrice + levelOffset) * 100) / 100,
                   size_l = max 100 (Math_round (g2 * 200 + 500 * (1 + imbalance * 0.3) * (1 - real level * 0.15))),
                   orders = Math_floor (r2 * 10) + 1\<rparr>;
        levels_loop rnd currentPrice spread' imbalance (Suc level) k4 (bids @ [bid]) (asks @ [ask])
      } else Some (bids, asks, k))"
  by pat_completeness auto
termination
  by (relation "measure (\<lambda>(rnd, currentPrice, spread', imbalance, level, k, bids, asks). 5 - level)") auto

text \<open>The state carried from one tick to the next, with the position in the random source.\<close>

record sim_state =
  currentPrice :: real
  currentVolatility :: real
  pos :: nat

text \<open>
  The body of \<^verbatim>\<open>for (let i = 0; i < numRecords; i++)\<close>: one tick. Three normal draws
  come first (\<open>shock\<close> for the volatility, a second one for the price change, a third one
  for the imbalance), then the levels, then two uniform draws for the trade.
\<close>

definition generateLOBData_body :: "(nat \<Rightarrow> real) \<Rightarrow> int \<Rightarrow> sim_state \<Rightarrow> (LOBRecord \<times> sim_state) option" where
  "generateLOBData_body rnd i st = do {
     (shock, k1) \<leftarrow> gaussianRandom rnd (pos st);
     let vol = volatilityPersistence * currentVolatility st
               + (1 - volatilityPersistence) * volatility_c * \<bar>shock\<bar>;
     (z, k2) \<leftarrow> gaussianRandom rnd k1;
     let priceChange = z * vol * currentPrice st;
     let cp = max (currentPrice st + priceChange) 1.0;
     let spread' = spreadBase * (1 + (vol / volatility_c) * 2);
     (g, k3) \<leftarrow> gaussianRandom rnd k2;
     let imbalance = max (- 0.8) (min 0.8 (sin (of_int i / 1000) * 0.3 + g * 0.2));
     (bids, asks, k4) \<leftarrow> levels_loop rnd cp spread' imbalance 0 k3 [] [];
     let totalBid = foldl (\<lambda>sum l. sum + size_l l) 0 bids;
     let totalAsk = foldl (\<lambda>sum l. sum + size_l l) 0 asks;
     let (r1, k5) = Math_random rnd k4;
     let tradeSide = (if r1 > 0.5 - imbalance * 0.2 then Buy else Sell);
     let (r2, k6) = Math_random rnd k5;
     Some (\<lparr>timestamp = i * 500,
            symbol = ''AAPL'',
            midPrice = Math_round (cp * 10000) / 10000,
            spread = Math_round (spread' * 10000) / 10000,
            bidLevels = bids,
            askLevels = asks,
            totalBidVolume = totalBid,
            totalAskVolume = totalAsk,
            orderImbalance = Math_round (imbalance * 10000) / 10000,
            volatility = Math_round (vol * 1000000) / 1000000,
            lastTrade = \<lparr>price_t = (if tradeSide = Buy then price (asks ! 0) else price (bids ! 0)),
                         size_t = (Math_floor (r2 * 100) + 1) * 100,
                         side_t = tradeSide\<rparr>\<rparr>,
           \<lparr>currentPrice = cp, currentVolatility = vol, pos = k6\<rparr>)
   }"

function generateLOBData_loop ::
  "(nat \<Rightarrow> real) \<Rightarrow> int \<Rightarrow> int \<Rightarrow> sim_state \<Rightarrow> LOBRecord list \<Rightarrow> LOBRecord list option" where
  "generateLOBData_loop rnd numRecords i st data =
     (if i < numRecords then do {
        (r, st') \<leftarrow> generateLOBData_body rnd i st;
        generateLOBData_loop rnd numRecords (i + 1) st' (data @ [r])
      } else Some data)"
  by pat_completeness auto
termination
  by (relation "measure (\<lambda>(rnd, numRecords, i, st, data). nat (numRecords - i))") auto

definition generateLOBData :: "(nat \<Rightarrow> real) \<Rightarrow> int \<Rightarrow> LOBRecord list option" where
  "generateLOBData rnd numRecords =
     generateLOBData_loop rnd numRecords 0
       \<lparr>currentPrice = basePrice, currentVolatility = volatility_c, pos = 0\<rparr> []"

section \<open>calculateFeatures\<close>

text \<open>
  The fields that \<^verbatim>\<open>FeatureRecord\<close> shares by name with \<^verbatim>\<open>LOBRecord\<close> carry the
  suffix \<open>_f\<close>.
\<close>

record FeatureRecord =
  timestamp_f :: int
  midPrice_f :: real
  spread_f :: real
  orderFlowImbalance :: real
  depthImbalance :: real
  priceMomentum :: real
  priceVolatility :: real
  spreadChange :: real
  vwapBid :: real
  vwapAsk :: real
  totalBidVolume_f :: real
  totalAskVolume_f :: real
  volatility_f :: real
  futureReturn :: real
  futureDirection :: real

text \<open>
  \<^verbatim>\<open>const futureReturn = i < data.length - 1 ? (data[i + 1].midPrice - record.midPrice) / record.midPrice : 0\<close>,
  the value before it is rounded for storage.
\<close>

definition futureReturn_at :: "LOBRecord list \<Rightarrow> nat \<Rightarrow> real" where
  "futureReturn_at data i =
     (if int i < int (length data) - 1
      then (midPrice (data ! (i + 1)) - midPrice (data ! i)) / midPrice (data ! i) else 0)"

text \<open>
  The body of \<^verbatim>\<open>for (let i = 10; i < data.length; i++)\<close>: the record pushed at index
  \<open>i\<close>. The direction is taken from the unrounded future return, the stored return is
  rounded to eight decimals.
\<close>

definition calculateFeatures_body :: "LOBRecord list \<Rightarrow> nat \<Rightarrow> FeatureRecord" where
  "calculateFeatures_body data i =
     (let rec = data ! i;
          totalBid = totalBidVolume rec;
          totalAsk = totalAskVolume rec;
          depthImb = (if totalBid + totalAsk > 0 then (totalBid - totalAsk) / (totalBid + totalAsk) else 0);
          lookbackPrices = map midPrice (slice (i - 10) i data);
          momentum = (midPrice rec - lookbackPrices ! 0) / lookbackPrices ! 0;
          avgPrice = foldl (\<lambda>a b. a + b) 0 lookbackPrices / 10;
          priceVol = foldl (\<lambda>s p. s + (p - avgPrice) ^ 2) 0 lookbackPrices / 10;
          spreadChg = spread rec - spread (data ! (i - 1));
          vwapB = (if totalBid > 0
                   then foldl (\<lambda>s l. s + price l * size_l l) 0 (bidLevels rec) / totalBid else 0);
          vwapA = (if totalAsk > 0
                   then foldl (\<lambda>s l. s + price l * size_l l) 0 (askLevels rec) / totalAsk else 0);
          futureRet = futureReturn_at data i
      in \<lparr>timestamp_f = timestamp rec,
          midPrice_f = midPrice rec,
          spread_f = spread rec,
          orderFlowImbalance = orderImbalance rec,
          depthImbalance = Math_round (depthImb * 10000) / 10000,
          priceMomentum = Math_round (momentum * 1000000) / 1000000,
          priceVolatility = Math_round (priceVol * 100000000) / 100000000,
          spreadChange = Math_round (spreadChg * 1000000) / 1000000,
          vwapBid = Math_round (vwapB * 10000) / 10000,
          vwapAsk = Math_round (vwapA * 10000) / 10000,
          totalBidVolume_f = totalBid,
          totalAskVolume_f = totalAsk,
          volatility_f = volatility rec,
          futureReturn = Math_round (futureRet * 100000000) / 100000000,
          futureDirection = (if futureRet > 0 then 1 else if futureRet < 0 then - 1 else 0)\<rparr>)"

function calculateFeatures_loop :: "LOBRecord list \<Rightarrow> nat \<Rightarrow> FeatureRecord list \<Rightarrow> FeatureRecord list" where
  "calculateFeatures_loop data i features =
     (if i < length data
      then calculateFeatures_loop data (Suc i) (features @ [calculateFeatures_body data i])
      else features)"
  by pat_completeness auto
termination
  by (relation "measure (\<lambda>(data, i, features). length data - i)") auto

definition calculateFeatures :: "LOBRecord list \<Rightarrow> FeatureRecord list" where
  "calculateFeatures data = calculateFeatures_loop data 10 []"

section \<open>runTimeSeriesAnalysis\<close>

record ArimaPoint =
  timestamp_a :: int
  actual :: real
  predicted :: real
  error :: real

record GarchPoint =
  timestamp_g :: int
  actualVolatility :: real
  forecastVolatility :: real
  conditionalVariance :: real

datatype regime_label = Low | Normal | High

record RegimePoint =
  timestamp_r :: int
  volatility_r :: real
  regime :: regime_label

record Metrics =
  mse :: real
  rmse :: real
  mae :: real
  directionAccuracy :: real

record MetricsPair =
  arima :: Metrics
  garch :: Metrics

record AnalysisResults =
  arimaResults :: "ArimaPoint list"
  garchResults :: "GarchPoint list"
  volatilityRegimes :: "RegimePoint list"
  metrics :: MetricsPair

text \<open>
  \<^verbatim>\<open>prices.slice(1).map((p, i) => (p - prices[i]) / prices[i])\<close> and
  \<^verbatim>\<open>Math.floor(prices.length * 0.8)\<close>.
\<close>

definition returns_of :: "real list \<Rightarrow> real list" where
  "returns_of prices = map_idx (\<lambda>p i. (p - prices ! i) / prices ! i) (drop 1 prices)"

definition trainSize_of :: "real list \<Rightarrow> nat" where
  "trainSize_of prices = nat \<lfloor>real (length prices) * 0.8\<rfloor>"

text \<open>
  The price loop. \<^verbatim>\<open>history.slice(-10)\<close> has fewer than ten elements when the history
  has, and the sum of its first differences is divided by \<open>9\<close> all the same. For an empty
  history, which arises only for a single feature vector, the source reads
  \<^verbatim>\<open>undefined\<close> as the last price and the prediction is \<^verbatim>\<open>NaN\<close>; the term
  \<open>history ! (length history - 1)\<close> is then an unspecified number, and no statement below
  is about it.
\<close>

definition avgChange_of :: "real list \<Rightarrow> real" where
  "avgChange_of history =
     reduce_idx (\<lambda>s p j arr. if j = 0 then s else s + (p - arr ! (j - 1))) 0 (slice_last 10 history) / 9"

function arima_loop ::
  "FeatureRecord list \<Rightarrow> real list \<Rightarrow> nat \<Rightarrow> real list \<Rightarrow> ArimaPoint list \<Rightarrow> ArimaPoint list" where
  "arima_loop features prices i history results =
     (if i < length prices then
        (let lastPrice = history ! (length history - 1);
             avgChange = avgChange_of history;
             pred = lastPrice + avgChange * 0.7;
             act = prices ! i
         in arima_loop features prices (Suc i) (history @ [act])
              (results @ [\<lparr>timestamp_a = timestamp_f (features ! i), actual = act,
                            predicted = pred, error = act - pred\<rparr>]))
      else results)"
  by pat_completeness auto
termination
  by (relation "measure (\<lambda>(features, prices, i, history, results). length prices - i)") auto

text \<open>
  The volatility loop: the warm-up over \<^verbatim>\<open>returns.slice(0, trainSize)\<close>, then one point
  for each later return, pushed before the variance is updated. The timestamp is
  \<^verbatim>\<open>features[i + 1]?.timestamp || features[i].timestamp\<close>; the fall-back of \<^verbatim>\<open>||\<close> on
  an empty timestamp string has no counterpart for the timestamps of this embedding.
\<close>

abbreviation omega :: real where "omega \<equiv> 0.00001"
abbreviation alpha :: real where "alpha \<equiv> 0.1"
abbreviation beta :: real where "beta \<equiv> 0.85"

definition garch_update :: "real \<Rightarrow> real \<Rightarrow> real" where
  "garch_update condVar r = omega + alpha * r * r + beta * condVar"

definition garch_warmup :: "real list \<Rightarrow> nat \<Rightarrow> real" where
  "garch_warmup returns trainSize = foldl garch_update 0.0001 (slice 0 trainSize returns)"

function garch_loop ::
  "FeatureRecord list \<Rightarrow> real list \<Rightarrow> nat \<Rightarrow> real \<Rightarrow> GarchPoint list \<Rightarrow> GarchPoint list" where
  "garch_loop features returns i condVar results =
     (if i < length returns then
        (let forecastVol = sqrt condVar;
             actualVol = \<bar>returns ! i\<bar>
         in garch_loop features returns (Suc i) (garch_update condVar (returns ! i))
              (results @ [\<lparr>timestamp_g = (if i + 1 < length features then timestamp_f (features ! (i + 1))
                                           else timestamp_f (features ! i)),
                            actualVolatility = actualVol,
                            forecastVolatility = forecastVol,
                            conditionalVariance = condVar\<rparr>]))
      else results)"
  by pat_completeness auto
termination
  by (relation "measure (\<lambda>(features, returns, i, condVar, results). length returns - i)") auto

text \<open>
  \<^verbatim>\<open>calcMetrics\<close>, with its loop \<^verbatim>\<open>for (let i = 1; i < n; i++)\<close>. Both call sites pass
  two maps of one array, so the series have the same length. For \<open>n = 0\<close> the source
  yields \<^verbatim>\<open>NaN\<close> for the three error measures and for \<open>n = 1\<close> for the direction
  accuracy; the quotients by zero of the embedding are not about those values.
\<close>

function correctDir_loop :: "real list \<Rightarrow> real list \<Rightarrow> nat \<Rightarrow> nat \<Rightarrow> nat \<Rightarrow> nat" where
  "correctDir_loop act pred n i correctDir =
     (if i < n then
        (let actualDir = (act ! i > act ! (i - 1));
             predDir = (pred ! i > pred ! (i - 1))
         in correctDir_loop act pred n (Suc i) (if actualDir = predDir then correctDir + 1 else correctDir))
      else correctDir)"
  by pat_completeness auto
termination
  by (relation "measure (\<lambda>(act, pred, n, i, correctDir). n - i)") auto

definition calcMetrics :: "real list \<Rightarrow> real list \<Rightarrow> Metrics" where
  "calcMetrics act pred =
     (let n = length act;
          mse' = reduce_idx (\<lambda>s a i arr. s + (a - pred ! i) ^ 2) 0 act / real n;
          rmse' = sqrt mse';
          mae' = reduce_idx (\<lambda>s a i arr. s + \<bar>a - pred ! i\<bar>) 0 act / real n;
          correctDir = correctDir_loop act pred n 1 0;
          dirAcc = (real correctDir / (real n - 1)) * 100
      in \<lparr>mse = mse', rmse = rmse', mae = mae', directionAccuracy = dirAcc\<rparr>)"

definition runTimeSeriesAnalysis :: "FeatureRecord list \<Rightarrow> AnalysisResults" where
  "runTimeSeriesAnalysis features =
     (let prices = map midPrice_f features;
          returns = returns_of prices;
          trainSize = trainSize_of prices;
          history = slice 0 trainSize prices;
          arimaRes = arima_loop features prices trainSize history [];
          condVar = garch_warmup returns trainSize;
          garchRes = garch_loop features returns trainSize condVar [];
          avgVol = foldl (\<lambda>s f. s + volatility_f f) 0 features / real (length features);
          regimes = map (\<lambda>f. \<lparr>timestamp_r = timestamp_f f, volatility_r = volatility_f f,
                                regime = (if volatility_f f > avgVol * 1.5 then High
                                          else if volatility_f f < avgVol * 0.5 then Low else Normal)\<rparr>)
                        (slice_last 500 features)
      in \<lparr>arimaResults = arimaRes,
          garchResults = garchRes,
          volatilityRegimes = regimes,
          metrics = \<lparr>arima = calcMetrics (map actual arimaRes) (map predicted arimaRes),
                      garch = calcMetrics (map actualVolatility garchRes) (map forecastVolatility garchRes)\<rparr>\<rparr>)"

section \<open>Derived notions used in the statements\<close>

text \<open>
  The parts of one tick, named: the volatility recursion, the price step, the spread, the
  clamped imbalance, and the level that the inner loop pushes on each side.
\<close>

definition next_vol :: "real \<Rightarrow> real \<Rightarrow> real" where
  "next_vol v shock = volatilityPersistence * v + (1 - volatilityPersistence) * volatility_c * \<bar>shock\<bar>"

definition next_price :: "real \<Rightarrow> real \<Rightarrow> real \<Rightarrow> real" where
  "next_price p v z = max (p + z * v * p) 1.0"

definition tick_spread :: "real \<Rightarrow> real" where
  "tick_spread v = spreadBase * (1 + (v / volatility_c) * 2)"

definition tick_imbalance :: "int \<Rightarrow> real \<Rightarrow> real" where
  "tick_imbalance i g = max (- 0.8) (min 0.8 (sin (of_int i / 1000) * 0.3 + g * 0.2))"

definition bid_price :: "real \<Rightarrow> real \<Rightarrow> nat \<Rightarrow> real" where
  "bid_price cp s L = Math_round ((cp - (s / 2 + real L * s * 0.5)) * 100) / 100"

definition ask_price :: "real \<Rightarrow> real \<Rightarrow> nat \<Rightarrow> real" where
  "ask_price cp s L = Math_round ((cp + (s / 2 + real L * s * 0.5)) * 100) / 100"

definition bid_level :: "real \<Rightarrow> real \<Rightarrow> real \<Rightarrow> nat \<Rightarrow> real \<Rightarrow> real \<Rightarrow> OrderLevel" where
  "bid_level cp s imb level g r =
     \<lparr>price = bid_price cp s level,
      size_l = max 100 (Math_round (g * 200 + 500 * (1 - imb * 0.3) * (1 - real level * 0.15))),
      orders = Math_floor (r * 10) + 1\<rparr>"

definition ask_level :: "real \<Rightarrow> real \<Rightarrow> real \<Rightarrow> nat \<Rightarrow> real \<Rightarrow> real \<Rightarrow> OrderLevel" where
  "ask_level cp s imb level g r =
     \<lparr>price = ask_price cp s level,
      size_l = max 100 (Math_round (g * 200 + 500 * (1 + imb * 0.3) * (1 - real level * 0.15))),
      orders = Math_floor (r * 10) + 1\<rparr>"

definition init_state :: sim_state where
  "init_state = \<lparr>currentPrice = basePrice, currentVolatility = volatility_c, pos = 0\<rparr>"

text \<open>
  The level prices as stored, after the rounding to two decimals, strictly ordered: every
  bid level below the ones before it, every ask level above.
\<close>

definition strict_levels :: "LOBRecord \<Rightarrow> bool" where
  "strict_levels r \<longleftrightarrow>
     sorted_wrt (\<lambda>a b. b < a) (map price (bidLevels r))
     \<and> sorted_wrt (\<lambda>a b. a < b) (map price (askLevels r))"

text \<open>
  What holds of every generated snapshot. On the bid side no stored level price is above
  the one before it, on the ask side none is below; the order is strict when the stored
  spread exceeds \<open>0.02\<close>.
\<close>

definition snapshot_ok :: "LOBRecord \<Rightarrow> bool" where
  "snapshot_ok r \<longleftrightarrow>
     1 \<le> midPrice r
     \<and> length (bidLevels r) = 5 \<and> length (askLevels r) = 5
     \<and> (\<forall>l \<in> set (bidLevels r). 100 \<le> size_l l)
     \<and> (\<forall>l \<in> set (askLevels r). 100 \<le> size_l l)
     \<and> sorted_wrt (\<lambda>a b. b \<le> a) (map price (bidLevels r))
     \<and> sorted_wrt (\<lambda>a b. a \<le> b) (map price (askLevels r))
     \<and> (0.02 < spread r \<longrightarrow> strict_levels r)
     \<and> 0 < spread r
     \<and> - 0.8 \<le> orderImbalance r \<and> orderImbalance r \<le> 0.8"

text \<open>
  The direction accuracy as the specification words it, with the three-valued sign of
  each change.
\<close>

definition directionAccuracy_spec :: "real list \<Rightarrow> real list \<Rightarrow> real" where
  "directionAccuracy_spec act pred =
     100 * real (length (filter (\<lambda>i. sgn (act ! i - act ! (i - 1)) = sgn (pred ! i - pred ! (i - 1)))
                           [1..<length act]))
     / (real (length act) - 1)"

subsection \<open>Concrete inputs\<close>

text \<open>Two random sources: one that always returns a quarter, one that returns a quarter at
  its fourth draw and a half elsewhere.\<close>

definition rnd_quarter :: "nat \<Rightarrow> real" where
  "rnd_quarter k = 1 / 4"

definition rnd_mixed :: "nat \<Rightarrow> real" where
  "rnd_mixed k = (if k = 3 then 1 / 4 else 1 / 2)"

text \<open>A snapshot and a feature vector with a given mid price and nothing else of interest.\<close>

definition flat_record :: "real \<Rightarrow> LOBRecord" where
  "flat_record p =
     \<lparr>timestamp = 0, symbol = ''AAPL'', midPrice = p, spread = 0.03,
      bidLevels = [], askLevels = [], totalBidVolume = 0, totalAskVolume = 0,
      orderImbalance = 0, volatility = 0.0002,
      lastTrade = \<lparr>price_t = p, size_t = 100, side_t = Buy\<rparr>\<rparr>"

definition flat_feature :: "real \<Rightarrow> FeatureRecord" where
  "flat_feature p =
     \<lparr>timestamp_f = 0, midPrice_f = p, spread_f = 0.03, orderFlowImbalance = 0,
      depthImbalance = 0, priceMomentum = 0, priceVolatility = 0, spreadChange = 0,
      vwapBid = 0, vwapAsk = 0, totalBidVolume_f = 0, totalAskVolume_f = 0,
      volatility_f = 0.0002, futureReturn = 0, futureDirection = 0\<rparr>"

definition data_tiny_rise :: "LOBRecord list" where
  "data_tiny_rise = replicate 11 (flat_record 100000) @ [flat_record 100000.0001]"

definition data_tiny_fall :: "LOBRecord list" where
  "data_tiny_fall = replicate 11 (flat_record 100000) @ [flat_record 99999.9999]"

definition features_const :: "FeatureRecord list" where
  "features_const = replicate 11 (flat_feature 100)"

definition features_five :: "FeatureRecord list" where
  "features_five = map flat_feature [100, 101, 103, 106, 110]"

text \<open>The comparison that \<^verbatim>\<open>calcMetrics\<close> counts: both series went up at \<open>i\<close>, or neither did.\<close>

definition same_direction :: "real list \<Rightarrow> real list \<Rightarrow> nat \<Rightarrow> bool" where
  "same_direction act pred i \<longleftrightarrow> (act ! i > act ! (i - 1)) = (pred ! i > pred ! (i - 1))"

text \<open>
  The forecast that the price loop emits at a history, and the point it pushes at index
  \<open>t\<close> when the history is the mid prices before \<open>t\<close>.
\<close>

definition arima_predict :: "real list \<Rightarrow> real" where
  "arima_predict history = history ! (length history - 1) + avgChange_of history * 0.7"

definition arima_point :: "FeatureRecord list \<Rightarrow> real list \<Rightarrow> nat \<Rightarrow> ArimaPoint" where
  "arima_point features prices t =
     \<lparr>timestamp_a = timestamp_f (features ! t), actual = prices ! t,
      predicted = arima_predict (take t prices),
      error = prices ! t - arima_predict (take t prices)\<rparr>"

text \<open>
  The conditional variance after \<open>k\<close> updates with a return of zero, started at \<open>c\<close>,
  and the point that the volatility loop pushes at index \<open>t\<close> in that case.
\<close>

definition condVar_closed :: "nat \<Rightarrow> real \<Rightarrow> real" where
  "condVar_closed k c = omega * (1 - beta ^ k) / (1 - beta) + beta ^ k * c"

definition garch_point_zero :: "FeatureRecord list \<Rightarrow> real \<Rightarrow> nat \<Rightarrow> nat \<Rightarrow> GarchPoint" where
  "garch_point_zero features c i t =
     \<lparr>timestamp_g = (if t + 1 < length features then timestamp_f (features ! (t + 1))
                     else timestamp_f (features ! t)),
      actualVolatility = 0,
      forecastVolatility = sqrt (condVar_closed (t - i) c),
      conditionalVariance = condVar_closed (t - i) c\<rparr>"

text \<open>Thirteen feature vectors with mid prices \<open>100, 101, \<dots>, 112\<close>.\<close>

definition features_ramp :: "FeatureRecord list" where
  "features_ramp = map (\<lambda>n. flat_feature (100 + real n)) [0..<13]"

declare levels_loop.simps [simp del]
declare generateLOBData_loop.simps [simp del]
declare calculateFeatures_loop.simps [simp del]
declare arima_loop.simps [simp del]
declare garch_loop.simps [simp del]
declare correctDir_loop.simps [simp del]

section \<open>The simulator: draws, levels, one tick, the whole run\<close>

lemma random_nonzero_Some: "rnd k \<noteq> 0 \<Longrightarrow> random_nonzero rnd k = Some (rnd k, Suc k)"
  by (subst random_nonzero.simps) (simp add: Math_random_def)

lemma gaussianRandom_Some:
  "rnd k \<noteq> 0 \<Longrightarrow> rnd (Suc k) \<noteq> 0 \<Longrightarrow>
   gaussianRandom rnd k = Some (sqrt (- 2 * ln (rnd k)) * cos (2 * pi * rnd (Suc k)), Suc (Suc k))"
  by (simp add: gaussianRandom_def random_nonzero_Some)

lemma levels_loop_stop: "\<not> level < 5 \<Longrightarrow> levels_loop rnd cp s imb level k bids asks = Some (bids, asks, k)"
  by (subst levels_loop.simps) simp

lemma levels_loop_step:
  "level < 5 \<Longrightarrow> gaussianRandom rnd k = Some (g1, k1) \<Longrightarrow> gaussianRandom rnd (Suc k1) = Some (g2, k3) \<Longrightarrow>
   levels_loop rnd cp s imb level k bids asks =
   levels_loop rnd cp s imb (Suc level) (Suc k3)
     (bids @ [bid_level cp s imb level g1 (rnd k1)]) (asks @ [ask_level cp s imb level g2 (rnd k3)])"
  by (subst levels_loop.simps)
     (simp add: Let_def Math_random_def bid_level_def ask_level_def bid_price_def ask_price_def)

lemma levels_loop_draws:
  "level < 5 \<Longrightarrow> levels_loop rnd cp s imb level k bids asks = Some res \<Longrightarrow>
   \<exists>g1 k1 g2 k3. gaussianRandom rnd k = Some (g1, k1) \<and> gaussianRandom rnd (Suc k1) = Some (g2, k3)"
  by (subst (asm) levels_loop.simps)
     (auto simp: Let_def Math_random_def split: Option.bind_splits)

lemma levels_loop_Some:
  "levels_loop rnd cp s imb level k bids asks = Some (bids', asks', k') \<Longrightarrow>
   \<exists>bs as. bids' = bids @ bs \<and> asks' = asks @ as
     \<and> map price bs = map (bid_price cp s) [level..<5]
     \<and> map price as = map (ask_price cp s) [level..<5]
     \<and> (\<forall>l \<in> set bs. 100 \<le> size_l l) \<and> (\<forall>l \<in> set as. 100 \<le> size_l l)"
proof (induction "5 - level" arbitrary: level k bids asks)
  case 0
  then show ?case by (simp add: levels_loop_stop)
next
  case (Suc n)
  then have lt: "level < 5" and n: "n = 5 - Suc level" by simp_all
  from levels_loop_draws[OF lt Suc.prems] obtain g1 k1 g2 k3 where
    g: "gaussianRandom rnd k = Some (g1, k1)" "gaussianRandom rnd (Suc k1) = Some (g2, k3)"
    by blast
  let ?bid = "bid_level cp s imb level g1 (rnd k1)" and ?ask = "ask_level cp s imb level g2 (rnd k3)"
  from Suc.prems have "levels_loop rnd cp s imb (Suc level) (Suc k3) (bids @ [?bid]) (asks @ [?ask])
      = Some (bids', asks', k')"
    by (simp add: levels_loop_step[OF lt g])
  from Suc.hyps(1)[OF n this] obtain bs as where *:
    "bids' = (bids @ [?bid]) @ bs" "asks' = (asks @ [?ask]) @ as"
    "map price bs = map (bid_price cp s) [Suc level..<5]"
    "map price as = map (ask_price cp s) [Suc level..<5]"
    "\<forall>l \<in> set bs. 100 \<le> size_l l" "\<forall>l \<in> set as. 100 \<le> size_l l"
    by blast
  have upt: "[level..<5] = level # [Suc level..<5]"
    using lt by (simp add: upt_conv_Cons)
  have "bids' = bids @ (?bid # bs)" "asks' = asks @ (?ask # as)"
    using * by simp_all
  moreover have "map price (?bid # bs) = map (bid_price cp s) [level..<5]"
    using * upt by (simp add: bid_level_def)
  moreover have "map price (?ask # as) = map (ask_price cp s) [level..<5]"
    using * upt by (simp add: ask_level_def)
  moreover have "\<forall>l \<in> set (?bid # bs). 100 \<le> size_l l" using * by (simp add: bid_level_def)
  moreover have "\<forall>l \<in> set (?ask # as). 100 \<le> size_l l" using * by (simp add: ask_level_def)
  ultimately show ?case by blast
qed

lemma levels_loop_total:
  "\<forall>j. rnd j \<noteq> 0 \<Longrightarrow> \<exists>bids' asks'. levels_loop rnd cp s imb level k bids asks = Some (bids', asks', k + 6 * (5 - level))"
proof (induction "5 - level" arbitrary: level k bids asks)
  case 0
  then show ?case by (simp add: levels_loop_stop)
next
  case (Suc n)
  then have lt: "level < 5" and n: "n = 5 - Suc level" by simp_all
  have g: "gaussianRandom rnd k = Some (sqrt (- 2 * ln (rnd k)) * cos (2 * pi * rnd (Suc k)), Suc (Suc k))"
      "gaussianRandom rnd (Suc (Suc (Suc k))) = Some (sqrt (- 2 * ln (rnd (Suc (Suc (Suc k))))) * cos (2 * pi * rnd (Suc (Suc (Suc (Suc k))))), Suc (Suc (Suc (Suc (Suc k)))))"
    using Suc.prems by (simp_all add: gaussianRandom_Some)
  have k: "Suc (Suc (Suc (Suc (Suc (Suc k))))) + 6 * (5 - Suc level) = k + 6 * (5 - level)"
    using lt by simp
  show ?case
    using Suc.hyps(1)[OF n Suc.prems, of "Suc (Suc (Suc (Suc (Suc (Suc k)))))"]
    unfolding levels_loop_step[OF lt g] k by blast
qed

lemma body_SomeE:
  assumes "generateLOBData_body rnd i st = Some (r, st')"
  obtains shock k1 z k2 g k3 bids asks k4 where
    "gaussianRandom rnd (pos st) = Some (shock, k1)"
    "gaussianRandom rnd k1 = Some (z, k2)"
    "gaussianRandom rnd k2 = Some (g, k3)"
    "levels_loop rnd (next_price (currentPrice st) (next_vol (currentVolatility st) shock) z)
       (tick_spread (next_vol (currentVolatility st) shock)) (tick_imbalance i g) 0 k3 [] []
     = Some (bids, asks, k4)"
    "currentVolatility st' = next_vol (currentVolatility st) shock"
    "currentPrice st' = next_price (currentPrice st) (next_vol (currentVolatility st) shock) z"
    "pos st' = Suc (Suc k4)"
    "midPrice r = Math_round (currentPrice st' * 10000) / 10000"
    "spread r = Math_round (tick_spread (currentVolatility st') * 10000) / 10000"
    "orderImbalance r = Math_round (tick_imbalance i g * 10000) / 10000"
    "bidLevels r = bids" "askLevels r = asks"
  using assms
  unfolding generateLOBData_body_def next_vol_def next_price_def tick_spread_def tick_imbalance_def
  by (auto simp: Let_def Math_random_def split: Option.bind_splits)

lemma body_total:
  assumes "\<forall>j. rnd j \<noteq> 0"
  shows "\<exists>r st'. generateLOBData_body rnd i st = Some (r, st')"
proof -
  have g: "\<And>k. \<exists>x. gaussianRandom rnd k = Some (x, Suc (Suc k))"
    using assms by (simp add: gaussianRandom_Some)
  obtain shock where 1: "gaussianRandom rnd (pos st) = Some (shock, Suc (Suc (pos st)))" using g by blast
  obtain z where 2: "gaussianRandom rnd (Suc (Suc (pos st))) = Some (z, Suc (Suc (Suc (Suc (pos st)))))" using g by blast
  obtain g3 where 3: "gaussianRandom rnd (Suc (Suc (Suc (Suc (pos st))))) = Some (g3, Suc (Suc (Suc (Suc (Suc (Suc (pos st)))))))" using g by blast
  obtain bids asks k4 where 4: "levels_loop rnd (next_price (currentPrice st) (next_vol (currentVolatility st) shock) z)
       (tick_spread (next_vol (currentVolatility st) shock)) (tick_imbalance i g3) 0 (Suc (Suc (Suc (Suc (Suc (Suc (pos st)))))))  [] []
     = Some (bids, asks, k4)"
    using levels_loop_total[OF assms] by blast
  show ?thesis
    using 1 2 3 4
    unfolding generateLOBData_body_def next_vol_def next_price_def tick_spread_def tick_imbalance_def
    by (simp add: Let_def Math_random_def)
qed

lemma loop_stop: "\<not> i < n \<Longrightarrow> generateLOBData_loop rnd n i st data = Some data"
  by (subst generateLOBData_loop.simps) simp

lemma loop_step:
  "i < n \<Longrightarrow> generateLOBData_body rnd i st = Some (r, st') \<Longrightarrow>
   generateLOBData_loop rnd n i st data = generateLOBData_loop rnd n (i + 1) st' (data @ [r])"
  by (subst generateLOBData_loop.simps) simp

lemma loop_body_Some:
  "i < n \<Longrightarrow> generateLOBData_loop rnd n i st data = Some out \<Longrightarrow>
   \<exists>r st'. generateLOBData_body rnd i st = Some (r, st')"
  by (subst (asm) generateLOBData_loop.simps) (auto split: Option.bind_splits)

lemma loop_total:
  assumes "\<forall>j. rnd j \<noteq> 0"
  shows "\<exists>out. generateLOBData_loop rnd n i st data = Some out"
proof (induction "nat (n - i)" arbitrary: i st data)
  case 0
  then show ?case by (simp add: loop_stop)
next
  case (Suc m)
  then have lt: "i < n" and m: "m = nat (n - (i + 1))" by simp_all
  obtain r st' where b: "generateLOBData_body rnd i st = Some (r, st')"
    using body_total[OF assms] by blast
  show ?case
    unfolding loop_step[OF lt b] using Suc.hyps(1)[OF m] .
qed

lemma loop_prefix:
  "generateLOBData_loop rnd n i st data = Some out \<Longrightarrow>
     \<exists>rest. out = data @ rest \<and> length rest = nat (n - i)"
proof (induction "nat (n - i)" arbitrary: i st data)
  case 0
  then show ?case by (simp add: loop_stop)
next
  case (Suc m)
  then have lt: "i < n" and m: "m = nat (n - (i + 1))" by simp_all
  obtain r st' where b: "generateLOBData_body rnd i st = Some (r, st')"
    using loop_body_Some[OF lt Suc.prems] by blast
  from Suc.prems have "generateLOBData_loop rnd n (i + 1) st' (data @ [r]) = Some out"
    by (simp add: loop_step[OF lt b])
  from Suc.hyps(1)[OF m this] obtain rest where "out = (data @ [r]) @ rest" "length rest = nat (n - (i + 1))"
    by blast
  then have "out = data @ (r # rest)" "length (r # rest) = nat (n - i)" using lt by simp_all
  then show ?case by blast
qed

lemma Math_round_mono: "x \<le> y \<Longrightarrow> Math_round x \<le> Math_round y"
  by (simp add: Math_round_def floor_mono)

lemma Math_round_of_int: "Math_round (of_int n) = of_int n"
  unfolding Math_round_def by (simp add: floor_unique)

lemma next_vol_pos: "0 < v \<Longrightarrow> 0 < next_vol v shock"
proof -
  assume "0 < v"
  then have "0 < 0.95 * v" by simp
  moreover have "0 \<le> (1 - 0.95) * 0.0002 * \<bar>shock\<bar>" by simp
  ultimately show ?thesis unfolding next_vol_def by linarith
qed

lemma next_price_ge: "1 \<le> next_price p v z"
  by (simp add: next_price_def)

lemma tick_spread_gt: "0 < v \<Longrightarrow> 0.01 < tick_spread v"
  by (simp add: tick_spread_def)

lemma tick_imbalance_range: "- 0.8 \<le> tick_imbalance i g \<and> tick_imbalance i g \<le> 0.8"
  unfolding tick_imbalance_def max_def min_def by simp

lemma midPrice_round_ge: "1 \<le> x \<Longrightarrow> 1 \<le> Math_round (x * 10000) / 10000"
proof -
  assume "1 \<le> x"
  then have "Math_round (of_int 10000) \<le> Math_round (x * 10000)"
    by (intro Math_round_mono) simp
  moreover have "Math_round (of_int 10000) = 10000"
    unfolding Math_round_of_int by simp
  ultimately show ?thesis by simp
qed

lemma spread_round_pos: "0.01 < s \<Longrightarrow> 0 < Math_round (s * 10000) / 10000"
proof -
  assume "0.01 < s"
  then have "Math_round (of_int 100) \<le> Math_round (s * 10000)"
    by (intro Math_round_mono) simp
  moreover have "Math_round (of_int 100) = 100"
    unfolding Math_round_of_int by simp
  ultimately show ?thesis by simp
qed

lemma imbalance_round_range:
  assumes "- 0.8 \<le> x" "x \<le> 0.8"
  shows "- 0.8 \<le> Math_round (x * 10000) / 10000 \<and> Math_round (x * 10000) / 10000 \<le> 0.8"
proof -
  have "Math_round (of_int (- 8000)) \<le> Math_round (x * 10000)"
    using assms by (intro Math_round_mono) simp
  moreover have "Math_round (x * 10000) \<le> Math_round (of_int 8000)"
    using assms by (intro Math_round_mono) simp
  moreover have "Math_round (of_int (- 8000)) = - 8000" "Math_round (of_int 8000) = 8000"
    unfolding Math_round_of_int by simp_all
  ultimately show ?thesis by simp
qed

lemma bid_price_antimono: "0 \<le> s \<Longrightarrow> L \<le> L' \<Longrightarrow> bid_price cp s L' \<le> bid_price cp s L"
  unfolding bid_price_def
  by (intro divide_right_mono Math_round_mono mult_right_mono diff_left_mono add_left_mono) simp_all

lemma ask_price_mono: "0 \<le> s \<Longrightarrow> L \<le> L' \<Longrightarrow> ask_price cp s L \<le> ask_price cp s L'"
  unfolding ask_price_def
  by (intro divide_right_mono Math_round_mono mult_right_mono add_left_mono) simp_all

lemma sorted_bid_prices: "0 \<le> s \<Longrightarrow> sorted_wrt (\<lambda>a b. b \<le> a) (map (bid_price cp s) [m..<n])"
  by (simp add: sorted_wrt_map sorted_wrt_iff_nth_less bid_price_antimono)

lemma sorted_ask_prices: "0 \<le> s \<Longrightarrow> sorted_wrt (\<lambda>a b. a \<le> b) (map (ask_price cp s) [m..<n])"
  by (simp add: sorted_wrt_map sorted_wrt_iff_nth_less ask_price_mono)

lemma Math_round_strict: "x + 1 \<le> y \<Longrightarrow> Math_round x < Math_round y"
proof -
  assume "x + 1 \<le> y"
  then have "\<lfloor>x + 1 / 2\<rfloor> + 1 \<le> \<lfloor>y + 1 / 2\<rfloor>"
    by (metis add.commute add.left_commute floor_add_int floor_mono of_int_1 add_le_cancel_left)
  then show ?thesis by (simp add: Math_round_def)
qed

lemma bid_price_strict:
  assumes "0.02 \<le> s" "L < L'"
  shows "bid_price cp s L' < bid_price cp s L"
proof -
  have "1 \<le> real L' - real L" using assms(2) by simp
  then have "0.02 * 1 \<le> s * (real L' - real L)"
    using assms(1) by (intro mult_mono) simp_all
  then have "(cp - (s / 2 + real L' * s * 0.5)) * 100 + 1 \<le> (cp - (s / 2 + real L * s * 0.5)) * 100"
    by (simp add: algebra_simps)
  then have "Math_round ((cp - (s / 2 + real L' * s * 0.5)) * 100)
             < Math_round ((cp - (s / 2 + real L * s * 0.5)) * 100)"
    by (rule Math_round_strict)
  then show ?thesis unfolding bid_price_def by (simp add: divide_strict_right_mono)
qed

lemma ask_price_strict:
  assumes "0.02 \<le> s" "L < L'"
  shows "ask_price cp s L < ask_price cp s L'"
proof -
  have "1 \<le> real L' - real L" using assms(2) by simp
  then have "0.02 * 1 \<le> s * (real L' - real L)"
    using assms(1) by (intro mult_mono) simp_all
  then have "(cp + (s / 2 + real L * s * 0.5)) * 100 + 1 \<le> (cp + (s / 2 + real L' * s * 0.5)) * 100"
    by (simp add: algebra_simps)
  then have "Math_round ((cp + (s / 2 + real L * s * 0.5)) * 100)
             < Math_round ((cp + (s / 2 + real L' * s * 0.5)) * 100)"
    by (rule Math_round_strict)
  then show ?thesis unfolding ask_price_def by (simp add: divide_strict_right_mono)
qed

lemma strict_bid_prices: "0.02 \<le> s \<Longrightarrow> sorted_wrt (\<lambda>a b. b < a) (map (bid_price cp s) [m..<n])"
  by (simp add: sorted_wrt_map sorted_wrt_iff_nth_less bid_price_strict)

lemma strict_ask_prices: "0.02 \<le> s \<Longrightarrow> sorted_wrt (\<lambda>a b. a < b) (map (ask_price cp s) [m..<n])"
  by (simp add: sorted_wrt_map sorted_wrt_iff_nth_less ask_price_strict)

lemma spread_round_large: "0.02 < Math_round (s * 10000) / 10000 \<Longrightarrow> 0.02 \<le> s"
proof -
  assume "0.02 < Math_round (s * 10000) / 10000"
  then have "200 < \<lfloor>s * 10000 + 1 / 2\<rfloor>" by (simp add: Math_round_def)
  then have "201 \<le> \<lfloor>s * 10000 + 1 / 2\<rfloor>" by simp
  then have "201 \<le> s * 10000 + 1 / 2" by (simp add: le_floor_iff)
  then show ?thesis by simp
qed

lemma body_strict:
  assumes b: "generateLOBData_body rnd i st = Some (r, st')"
    and s: "0.02 \<le> tick_spread (currentVolatility st')"
  shows "strict_levels r"
proof -
  from b obtain shock z g k3 bids asks k4 where f:
    "levels_loop rnd (next_price (currentPrice st) (next_vol (currentVolatility st) shock) z)
       (tick_spread (next_vol (currentVolatility st) shock)) (tick_imbalance i g) 0 k3 [] []
     = Some (bids, asks, k4)"
    "currentVolatility st' = next_vol (currentVolatility st) shock"
    "currentPrice st' = next_price (currentPrice st) (next_vol (currentVolatility st) shock) z"
    "bidLevels r = bids" "askLevels r = asks"
    by (rule body_SomeE)
  from levels_loop_Some[OF f(1)] f(2,3) have lv:
    "map price bids = map (bid_price (currentPrice st') (tick_spread (currentVolatility st'))) [0..<5]"
    "map price asks = map (ask_price (currentPrice st') (tick_spread (currentVolatility st'))) [0..<5]"
    by auto
  show ?thesis
    unfolding strict_levels_def f(4,5) lv using s by (simp add: strict_bid_prices strict_ask_prices)
qed

lemma body_ok:
  assumes b: "generateLOBData_body rnd i st = Some (r, st')" and v: "0 < currentVolatility st"
  shows "snapshot_ok r" and "0 < currentVolatility st'"
proof -
  from b obtain shock z g k3 bids asks k4 where f:
    "levels_loop rnd (next_price (currentPrice st) (next_vol (currentVolatility st) shock) z)
       (tick_spread (next_vol (currentVolatility st) shock)) (tick_imbalance i g) 0 k3 [] []
     = Some (bids, asks, k4)"
    "currentVolatility st' = next_vol (currentVolatility st) shock"
    "currentPrice st' = next_price (currentPrice st) (next_vol (currentVolatility st) shock) z"
    "midPrice r = Math_round (currentPrice st' * 10000) / 10000"
    "spread r = Math_round (tick_spread (currentVolatility st') * 10000) / 10000"
    "orderImbalance r = Math_round (tick_imbalance i g * 10000) / 10000"
    "bidLevels r = bids" "askLevels r = asks"
    by (rule body_SomeE)
  show v': "0 < currentVolatility st'" using f(2) v by (simp add: next_vol_pos)
  let ?s = "tick_spread (currentVolatility st')" and ?cp = "currentPrice st'"
  have s: "0.01 < ?s" using v' by (rule tick_spread_gt)
  from levels_loop_Some[OF f(1)] f(2,3) have lv:
    "map price bids = map (bid_price ?cp ?s) [0..<5]"
    "map price asks = map (ask_price ?cp ?s) [0..<5]"
    "\<forall>l \<in> set bids. 100 \<le> size_l l" "\<forall>l \<in> set asks. 100 \<le> size_l l"
    by auto
  have len: "length bids = 5" "length asks = 5"
    using lv(1,2) by (metis length_map length_upt diff_zero)+
  have "1 \<le> midPrice r" unfolding f(4) f(3) by (intro midPrice_round_ge next_price_ge)
  moreover have "0 < spread r" unfolding f(5) using s by (rule spread_round_pos)
  moreover have "- 0.8 \<le> orderImbalance r \<and> orderImbalance r \<le> 0.8"
    unfolding f(6) using tick_imbalance_range[of i g] by (intro imbalance_round_range) simp_all
  moreover have "sorted_wrt (\<lambda>a b. b \<le> a) (map price (bidLevels r))"
    unfolding f(7) lv(1) using s by (intro sorted_bid_prices) simp
  moreover have "sorted_wrt (\<lambda>a b. a \<le> b) (map price (askLevels r))"
    unfolding f(8) lv(2) using s by (intro sorted_ask_prices) simp
  moreover have "strict_levels r" if "0.02 < spread r"
  proof -
    from that have "0.02 \<le> ?s" unfolding f(5) by (rule spread_round_large)
    with b show ?thesis by (rule body_strict)
  qed
  ultimately show "snapshot_ok r"
    unfolding snapshot_ok_def using len lv(3,4) f(7,8) by simp
qed

lemma loop_ok:
  "generateLOBData_loop rnd n i st data = Some out \<Longrightarrow> 0 < currentVolatility st \<Longrightarrow>
   \<forall>r \<in> set data. snapshot_ok r \<Longrightarrow> \<forall>r \<in> set out. snapshot_ok r"
proof (induction "nat (n - i)" arbitrary: i st data)
  case 0
  then show ?case by (simp add: loop_stop)
next
  case (Suc m)
  then have lt: "i < n" and m: "m = nat (n - (i + 1))" by simp_all
  obtain r st' where b: "generateLOBData_body rnd i st = Some (r, st')"
    using loop_body_Some[OF lt Suc.prems(1)] by blast
  from Suc.prems(1) have run: "generateLOBData_loop rnd n (i + 1) st' (data @ [r]) = Some out"
    by (simp add: loop_step[OF lt b])
  have "\<forall>x \<in> set (data @ [r]). snapshot_ok x"
    using Suc.prems(3) body_ok(1)[OF b Suc.prems(2)] by simp
  with Suc.hyps(1)[OF m run body_ok(2)[OF b Suc.prems(2)]] show ?case by blast
qed



lemma generateLOBData_ok:
  assumes "generateLOBData rnd n = Some data"
  shows "length data = nat n" and "\<forall>r \<in> set data. snapshot_ok r"
proof -
  from assms have run: "generateLOBData_loop rnd n 0
       \<lparr>currentPrice = basePrice, currentVolatility = volatility_c, pos = 0\<rparr> [] = Some data"
    by (simp add: generateLOBData_def)
  from loop_prefix[OF run] show "length data = nat n" by auto
  from loop_ok[OF run] show "\<forall>r \<in> set data. snapshot_ok r" by simp
qed

lemma generateLOBData_total: "\<forall>k. rnd k \<noteq> 0 \<Longrightarrow> \<exists>data. generateLOBData rnd n = Some data"
  unfolding generateLOBData_def by (rule loop_total)

lemma generateLOBData_nonpos: "n < 1 \<Longrightarrow> generateLOBData rnd n = Some []"
  unfolding generateLOBData_def by (simp add: loop_stop)










lemma gaussianRandom_mixed:
  "gaussianRandom rnd_mixed 0 = Some (- sqrt (2 * ln 2), 2)"
  "gaussianRandom rnd_mixed 2 = Some (0, 4)"
  by (simp_all add: gaussianRandom_Some rnd_mixed_def ln_div eval_nat_numeral)


section \<open>Claims about the simulator\<close>

text \<open>
  \<^bold>\<open>C1\<close>, as amended. In one tick the volatility is updated from the first normal draw
  \<open>shock\<close>, to \<open>0.95 * volatility + 0.05 * 0.0002 * \<bar>shock\<bar>\<close>, and the new price is
  \<open>max (price + z * volatility * price) 1\<close> where \<open>z\<close> is a second normal draw, taken
  from the source right after \<open>shock\<close>, and \<open>volatility\<close> is the updated one. The tick
  returns for every source that never yields \<open>0\<close>.
\<close>

theorem body_price_from_second_draw:
  "(\<forall>r st'. generateLOBData_body rnd i st = Some (r, st') \<longrightarrow>
      (\<exists>shock k1 z k2.
         gaussianRandom rnd (pos st) = Some (shock, k1) \<and> gaussianRandom rnd k1 = Some (z, k2)
         \<and> currentVolatility st' = volatilityPersistence * currentVolatility st
              + (1 - volatilityPersistence) * volatility_c * \<bar>shock\<bar>
         \<and> currentPrice st' = max (currentPrice st + z * currentVolatility st' * currentPrice st) 1.0))
   \<and> ((\<forall>k. 0 < rnd k \<and> rnd k < 1) \<longrightarrow> generateLOBData_body rnd i st \<noteq> None)"
proof (intro conjI allI impI)
  fix r st' assume "generateLOBData_body rnd i st = Some (r, st')"
  then obtain shock k1 z k2 g k3 where
    "gaussianRandom rnd (pos st) = Some (shock, k1)"
    "gaussianRandom rnd k1 = Some (z, k2)"
    "gaussianRandom rnd k2 = Some (g, k3)"
    "currentVolatility st' = next_vol (currentVolatility st) shock"
    "currentPrice st' = next_price (currentPrice st) (next_vol (currentVolatility st) shock) z"
    by (rule body_SomeE)
  then show "\<exists>shock k1 z k2.
         gaussianRandom rnd (pos st) = Some (shock, k1) \<and> gaussianRandom rnd k1 = Some (z, k2)
         \<and> currentVolatility st' = volatilityPersistence * currentVolatility st
              + (1 - volatilityPersistence) * volatility_c * \<bar>shock\<bar>
         \<and> currentPrice st' = max (currentPrice st + z * currentVolatility st' * currentPrice st) 1.0"
    by (simp add: next_vol_def next_price_def)
next
  assume "\<forall>k. 0 < rnd k \<and> rnd k < 1"
  then have "\<forall>k. rnd k \<noteq> 0" by (metis less_irrefl)
  from body_total[OF this] show "generateLOBData_body rnd i st \<noteq> None" by auto
qed

text \<open>The tick on the start state with the source \<open>rnd_mixed\<close>: the first draw is
  \<open>- sqrt (2 * ln 2)\<close>, the second is \<open>0\<close>, and the price stays at \<open>150\<close>.\<close>

theorem body_price_from_second_draw_witness:
  "generateLOBData_body rnd_mixed 0 init_state \<noteq> None
   \<and> currentVolatility (snd (the (generateLOBData_body rnd_mixed 0 init_state)))
       = 0.95 * 0.0002 + 0.05 * 0.0002 * sqrt (2 * ln 2)
   \<and> currentPrice (snd (the (generateLOBData_body rnd_mixed 0 init_state))) = 150"
proof -
  have "\<forall>k. 0 < rnd_mixed k \<and> rnd_mixed k < 1" by (simp add: rnd_mixed_def)
  with body_price_from_second_draw[of rnd_mixed 0 init_state]
  obtain r st' where b: "generateLOBData_body rnd_mixed 0 init_state = Some (r, st')" by auto
  with body_price_from_second_draw[of rnd_mixed 0 init_state] obtain shock k1 z k2 where f:
    "gaussianRandom rnd_mixed (pos init_state) = Some (shock, k1)" "gaussianRandom rnd_mixed k1 = Some (z, k2)"
    "currentVolatility st' = volatilityPersistence * currentVolatility init_state
              + (1 - volatilityPersistence) * volatility_c * \<bar>shock\<bar>"
    "currentPrice st' = max (currentPrice init_state + z * currentVolatility st' * currentPrice init_state) 1.0"
    by blast
  from f(1) have shock: "shock = - sqrt (2 * ln 2)" "k1 = 2"
    by (simp_all add: init_state_def gaussianRandom_mixed)
  from f(2) have z: "z = 0" unfolding shock by (simp add: gaussianRandom_mixed)
  show ?thesis using b f(3,4) unfolding shock z by (simp add: init_state_def)
qed

text \<open>
  \<^bold>\<open>C1\<close>, as stated, fails there: the price after the tick is \<open>150\<close>, whereas the
  step computed from \<open>shock\<close> itself would be below \<open>150\<close>.
\<close>

theorem same_shock_counterexample:
  "generateLOBData_body rnd_mixed 0 init_state \<noteq> None
   \<and> fst (the (gaussianRandom rnd_mixed 0)) = - sqrt (2 * ln 2)
   \<and> currentPrice (snd (the (generateLOBData_body rnd_mixed 0 init_state))) = 150
   \<and> max (currentPrice init_state
           + fst (the (gaussianRandom rnd_mixed 0))
             * currentVolatility (snd (the (generateLOBData_body rnd_mixed 0 init_state)))
             * currentPrice init_state) 1.0 < 150"
proof -
  have "\<forall>k. rnd_mixed k \<noteq> 0" by (simp add: rnd_mixed_def)
  from body_total[OF this] obtain r st' where
    b: "generateLOBData_body rnd_mixed 0 init_state = Some (r, st')" by blast
  then obtain shock k1 z k2 g k3 where f:
    "gaussianRandom rnd_mixed (pos init_state) = Some (shock, k1)"
    "gaussianRandom rnd_mixed k1 = Some (z, k2)"
    "gaussianRandom rnd_mixed k2 = Some (g, k3)"
    "currentVolatility st' = next_vol (currentVolatility init_state) shock"
    "currentPrice st' = next_price (currentPrice init_state) (next_vol (currentVolatility init_state) shock) z"
    by (rule body_SomeE)
  from f(1) have shock: "shock = - sqrt (2 * ln 2)" "k1 = 2"
    by (simp_all add: init_state_def gaussianRandom_mixed)
  from f(2) have z: "z = 0" unfolding shock by (simp add: gaussianRandom_mixed)
  have st': "currentVolatility st' = 0.95 * 0.0002 + 0.05 * 0.0002 * sqrt (2 * ln 2)"
    "currentPrice st' = 150"
    using f(4,5) unfolding shock z by (simp_all add: init_state_def next_vol_def next_price_def)
  have pos: "0 < sqrt (2 * ln 2)" by simp
  have "0 < sqrt (2 * ln 2) * (0.95 * 0.0002 + 0.05 * 0.0002 * sqrt (2 * ln 2)) * 150"
    using pos by (intro mult_pos_pos add_pos_pos) simp_all
  then have "max (150 + (- sqrt (2 * ln 2)) * (0.95 * 0.0002 + 0.05 * 0.0002 * sqrt (2 * ln 2)) * 150) 1.0 < (150::real)"
    by simp
  then show ?thesis using b st' by (simp add: init_state_def gaussianRandom_mixed)
qed




text \<open>
  \<^bold>\<open>C6\<close>, as amended. \<open>generateLOBData\<close> has no error outcome. Called with \<open>n < 1\<close> it
  returns the empty sequence; called with any \<open>n\<close> and a source with values strictly
  between \<open>0\<close> and \<open>1\<close> it returns a sequence of \<open>n\<close> snapshots (none for \<open>n < 1\<close>).
\<close>

theorem generateLOBData_no_failure:
  "(n < 1 \<longrightarrow> generateLOBData rnd n = Some [])
   \<and> ((\<forall>k. 0 < rnd k \<and> rnd k < 1) \<longrightarrow> (\<exists>data. generateLOBData rnd n = Some data \<and> length data = nat n))"
proof (intro conjI impI)
  assume "n < 1" then show "generateLOBData rnd n = Some []" by (rule generateLOBData_nonpos)
next
  assume "\<forall>k. 0 < rnd k \<and> rnd k < 1"
  then have "\<forall>k. rnd k \<noteq> 0" by (metis less_irrefl)
  from generateLOBData_total[OF this] generateLOBData_ok(1)
  show "\<exists>data. generateLOBData rnd n = Some data \<and> length data = nat n" by blast
qed

theorem generateLOBData_no_failure_witness:
  "generateLOBData rnd_quarter (- 3) = Some []
   \<and> (\<exists>data. generateLOBData rnd_quarter 3 = Some data \<and> length data = 3)"
proof -
  have "\<forall>k. 0 < rnd_quarter k \<and> rnd_quarter k < 1" by (simp add: rnd_quarter_def)
  then show ?thesis
    using generateLOBData_no_failure[of "- 3" rnd_quarter] generateLOBData_no_failure[of 3 rnd_quarter]
    by simp
qed

text \<open>\<^bold>\<open>C6\<close>, as stated, fails at \<open>n = 0\<close>: the result is the empty sequence, returned
  normally.\<close>

theorem invalid_config_counterexample:
  "generateLOBData rnd_quarter 0 = Some []"
  by (simp add: generateLOBData_nonpos)

section \<open>The feature extractor\<close>

lemma calculateFeatures_loop_map:
  "calculateFeatures_loop data i features = features @ map (calculateFeatures_body data) [i..<length data]"
proof (induction "length data - i" arbitrary: i features)
  case 0
  then show ?case by (subst calculateFeatures_loop.simps) simp
next
  case (Suc m)
  then have lt: "i < length data" and m: "m = length data - Suc i" by simp_all
  have "calculateFeatures_loop data i features
        = calculateFeatures_loop data (Suc i) (features @ [calculateFeatures_body data i])"
    using lt by (subst calculateFeatures_loop.simps) simp
  also have "\<dots> = (features @ [calculateFeatures_body data i]) @ map (calculateFeatures_body data) [Suc i..<length data]"
    by (rule Suc.hyps(1)[OF m])
  finally show ?case using lt by (simp add: upt_conv_Cons)
qed

lemma calculateFeatures_map:
  "calculateFeatures data = map (calculateFeatures_body data) [10..<length data]"
  by (simp add: calculateFeatures_def calculateFeatures_loop_map)

lemma calculateFeatures_nth:
  "j < length data - 10 \<Longrightarrow> calculateFeatures data ! j = calculateFeatures_body data (10 + j)"
  by (simp add: calculateFeatures_map)

lemma Math_round_pos_imp: "0 < Math_round x \<Longrightarrow> 0 < x"
  unfolding Math_round_def by (simp add: floor_less_iff less_floor_iff)

lemma Math_round_neg_imp: "Math_round x < 0 \<Longrightarrow> x < 0"
  unfolding Math_round_def by (simp add: floor_less_iff) 

lemma Math_round_zero: "Math_round 0 = 0"
  unfolding Math_round_def by simp

lemma body_future:
  "futureReturn (calculateFeatures_body data i) = Math_round (futureReturn_at data i * 100000000) / 100000000"
  "futureDirection (calculateFeatures_body data i) = sgn (futureReturn_at data i)"
  by (simp_all add: calculateFeatures_body_def Let_def sgn_if)

lemma tiny_rise_returns:
  "futureReturn_at data_tiny_rise 10 = 1 / 1000000000"
  "futureReturn_at data_tiny_rise 11 = 0"
  by (simp_all add: futureReturn_at_def data_tiny_rise_def nth_append flat_record_def)

lemma tiny_fall_returns: "futureReturn_at data_tiny_fall 10 = - 1 / 1000000000"
  by (simp add: futureReturn_at_def data_tiny_fall_def nth_append flat_record_def)

lemma tiny_rise_length: "length (calculateFeatures data_tiny_rise) = 2"
  by (simp add: calculateFeatures_map data_tiny_rise_def)

lemma tiny_rise_nonzero: "\<forall>r \<in> set data_tiny_rise. midPrice r \<noteq> 0"
  by (simp add: data_tiny_rise_def flat_record_def)

text \<open>
  \<^bold>\<open>C9\<close>. \<open>calculateFeatures\<close> returns \<open>length data - 10\<close> feature vectors when the
  input has more than ten snapshots, and the empty sequence otherwise; it is a total
  function, so the short input is no error.
\<close>

theorem calculateFeatures_length:
  "(if 10 < length data then length (calculateFeatures data) = length data - 10
    else calculateFeatures data = [])"
  by (simp add: calculateFeatures_map)

theorem calculateFeatures_length_witness:
  "length (calculateFeatures data_tiny_rise) = 2
   \<and> calculateFeatures (replicate 10 (flat_record 150)) = []"
  using calculateFeatures_length[of data_tiny_rise]
        calculateFeatures_length[of "replicate 10 (flat_record 150)"]
  by (simp add: data_tiny_rise_def)

text \<open>
  \<^bold>\<open>C4\<close>, as amended. \<open>futureDirection\<close> is the three-valued sign of the future return
  before rounding, and the stored \<open>futureReturn\<close> is that return rounded to eight
  decimals. So a positive stored return comes with direction \<open>1\<close>, a negative one with
  direction \<open>-1\<close>, and direction \<open>0\<close> with a stored return of \<open>0\<close>; the converses are
  not claimed. The mid prices are taken to be non-zero, as division by zero is outside the
  embedding, and the rounding is that of exact arithmetic.
\<close>

theorem futureDirection_sign:
  assumes "\<forall>r \<in> set data. midPrice r \<noteq> 0" and "j < length (calculateFeatures data)"
  shows "futureDirection (calculateFeatures data ! j) = sgn (futureReturn_at data (10 + j))
       \<and> futureReturn (calculateFeatures data ! j)
           = Math_round (futureReturn_at data (10 + j) * 100000000) / 100000000
       \<and> (futureReturn (calculateFeatures data ! j) > 0 \<longrightarrow> futureDirection (calculateFeatures data ! j) = 1)
       \<and> (futureReturn (calculateFeatures data ! j) < 0 \<longrightarrow> futureDirection (calculateFeatures data ! j) = - 1)
       \<and> (futureDirection (calculateFeatures data ! j) = 0 \<longrightarrow> futureReturn (calculateFeatures data ! j) = 0)"
proof -
  let ?f = "calculateFeatures data ! j" and ?x = "futureReturn_at data (10 + j)"
  from assms(2) have j: "j < length data - 10" by (simp add: calculateFeatures_map)
  then have f: "?f = calculateFeatures_body data (10 + j)" by (rule calculateFeatures_nth)
  have d: "futureDirection ?f = sgn ?x" and r: "futureReturn ?f = Math_round (?x * 100000000) / 100000000"
    unfolding f by (rule body_future)+
  have "futureDirection ?f = 1" if "futureReturn ?f > 0"
  proof -
    from that have "0 < Math_round (?x * 100000000)" unfolding r by simp
    then have "0 < ?x * 100000000" by (rule Math_round_pos_imp)
    then show ?thesis unfolding d by simp
  qed
  moreover have "futureDirection ?f = - 1" if "futureReturn ?f < 0"
  proof -
    from that have "Math_round (?x * 100000000) < 0" unfolding r by simp
    then have "?x * 100000000 < 0" by (rule Math_round_neg_imp)
    then show ?thesis unfolding d by simp
  qed
  moreover have "futureReturn ?f = 0" if "futureDirection ?f = 0"
    using that unfolding d r by (simp add: sgn_zero_iff Math_round_zero)
  ultimately show ?thesis using d r by blast
qed

theorem futureDirection_sign_witness:
  "futureDirection (calculateFeatures data_tiny_rise ! 0) = 1
   \<and> futureDirection (calculateFeatures data_tiny_rise ! 1) = 0
   \<and> futureReturn (calculateFeatures data_tiny_rise ! 1) = 0"
  using futureDirection_sign[OF tiny_rise_nonzero, of 0] futureDirection_sign[OF tiny_rise_nonzero, of 1]
  by (simp add: tiny_rise_length tiny_rise_returns)

text \<open>
  \<^bold>\<open>C4\<close>, as stated, fails for a return below half of \<open>10\<^sup>-\<^sup>8\<close> in size. Twelve
  snapshots at \<open>100000\<close>, the last one at \<open>100000.0001\<close>: the first feature vector has
  direction \<open>1\<close> and a stored return of \<open>0\<close>. With the last one at \<open>99999.9999\<close> it has
  direction \<open>-1\<close> and a stored return of \<open>0\<close>.
\<close>

theorem futureDirection_counterexample:
  "futureDirection (calculateFeatures data_tiny_rise ! 0) = 1
   \<and> futureReturn (calculateFeatures data_tiny_rise ! 0) = 0
   \<and> futureDirection (calculateFeatures data_tiny_fall ! 0) = - 1
   \<and> futureReturn (calculateFeatures data_tiny_fall ! 0) = 0"
proof -
  have "calculateFeatures data_tiny_rise ! 0 = calculateFeatures_body data_tiny_rise (10 + 0)"
    by (rule calculateFeatures_nth) (simp add: data_tiny_rise_def)
  moreover have "calculateFeatures data_tiny_fall ! 0 = calculateFeatures_body data_tiny_fall (10 + 0)"
    by (rule calculateFeatures_nth) (simp add: data_tiny_fall_def)
  ultimately show ?thesis
    by (simp add: body_future tiny_rise_returns tiny_fall_returns Math_round_def)
qed

section \<open>The metrics calculator\<close>

lemma correctDir_loop_count:
  "correctDir_loop act pred n i c = c + length (filter (same_direction act pred) [i..<n])"
proof (induction "n - i" arbitrary: i c)
  case 0
  then show ?case by (subst correctDir_loop.simps) simp
next
  case (Suc m)
  then have lt: "i < n" and m: "m = n - Suc i" by simp_all
  have "correctDir_loop act pred n i c
        = correctDir_loop act pred n (Suc i) (if same_direction act pred i then c + 1 else c)"
    using lt by (subst correctDir_loop.simps) (simp add: Let_def same_direction_def)
  also have "\<dots> = (if same_direction act pred i then c + 1 else c)
                   + length (filter (same_direction act pred) [Suc i..<n])"
    by (rule Suc.hyps(1)[OF m])
  finally show ?case using lt by (simp add: upt_conv_Cons)
qed

lemma calcMetrics_directionAccuracy:
  "directionAccuracy (calcMetrics act pred)
   = real (length (filter (same_direction act pred) [1..<length act])) / (real (length act) - 1) * 100"
  by (simp add: calcMetrics_def Let_def correctDir_loop_count)

lemma upt_1_4: "[1..<4] = [1, 2, 3]" "[1..<2] = [1]"
  by (simp_all add: upt_rec)

text \<open>
  \<^bold>\<open>C3\<close>, as amended. For equal-length series with \<open>n \<ge> 2\<close>, \<open>directionAccuracy\<close> is
  \<open>100\<close> times the number of indices \<open>i\<close> in \<open>[1, n)\<close> at which the two truth values
  \<open>actual\<^sub>i > actual\<^sub>i\<^sub>-\<^sub>1\<close> and \<open>predicted\<^sub>i > predicted\<^sub>i\<^sub>-\<^sub>1\<close> agree, over \<open>n - 1\<close>.
  The comparison is two-valued: a change of zero counts as agreeing with a fall.
\<close>

theorem directionAccuracy_two_valued:
  assumes "length pred = length act" and "2 \<le> length act"
  shows "directionAccuracy (calcMetrics act pred)
         = 100 * real (length (filter (\<lambda>i. (act ! i > act ! (i - 1)) = (pred ! i > pred ! (i - 1)))
                                 [1..<length act]))
           / (real (length act) - 1)"
proof -
  have "same_direction act pred = (\<lambda>i. (act ! i > act ! (i - 1)) = (pred ! i > pred ! (i - 1)))"
    by (rule ext) (simp add: same_direction_def)
  then show ?thesis by (simp add: calcMetrics_directionAccuracy)
qed

theorem directionAccuracy_two_valued_witness:
  "directionAccuracy (calcMetrics [1, 2, 3, 2] [1.1, 1.9, 3.2, 1.8]) = 100"
  using directionAccuracy_two_valued[of "[1.1, 1.9, 3.2, 1.8]" "[1, 2, 3, 2]"]
  by (simp add: upt_1_4)

text \<open>
  \<^bold>\<open>C3\<close>, as stated, fails for \<open>actual = [1, 1]\<close> and \<open>predicted = [2, 1]\<close>: the code
  reports \<open>100\<close>, the three-valued sign gives \<open>0\<close>.
\<close>

theorem directionAccuracy_counterexample:
  "directionAccuracy (calcMetrics [1, 1] [2, 1]) = 100 \<and> directionAccuracy_spec [1, 1] [2, 1] = 0"
  by (simp add: calcMetrics_directionAccuracy directionAccuracy_spec_def same_direction_def upt_1_4)

section \<open>The analysis: split, price loop, volatility loop\<close>

lemma trainSize_of_div: "trainSize_of prices = 4 * length prices div 5"
proof -
  have "real (length prices) * 0.8 = real (4 * length prices) / real 5" by simp
  then have "\<lfloor>real (length prices) * 0.8\<rfloor> = int (4 * length prices div 5)"
    by (simp only: floor_divide_of_nat_eq)
  then show ?thesis by (simp add: trainSize_of_def)
qed

lemma trainSize_le: "trainSize_of prices \<le> length prices"
  by (simp add: trainSize_of_div)

lemma trainSize_less: "prices \<noteq> [] \<Longrightarrow> trainSize_of prices < length prices"
  by (cases prices) (simp_all add: trainSize_of_div)

lemma arima_loop_map:
  "i \<le> length prices \<Longrightarrow>
   arima_loop features prices i (take i prices) results
   = results @ map (arima_point features prices) [i..<length prices]"
proof (induction "length prices - i" arbitrary: i results)
  case 0
  then show ?case by (subst arima_loop.simps) simp
next
  case (Suc m)
  then have lt: "i < length prices" and m: "m = length prices - Suc i" by simp_all
  have h: "take i prices @ [prices ! i] = take (Suc i) prices"
    using lt by (simp add: take_Suc_conv_app_nth)
  have "arima_loop features prices i (take i prices) results
        = arima_loop features prices (Suc i) (take (Suc i) prices)
            (results @ [arima_point features prices i])"
    using lt by (subst arima_loop.simps) (simp add: Let_def h arima_point_def arima_predict_def)
  also have "\<dots> = (results @ [arima_point features prices i])
                    @ map (arima_point features prices) [Suc i..<length prices]"
    using lt by (intro Suc.hyps(1)[OF m]) simp
  finally show ?case using lt by (simp add: upt_conv_Cons)
qed

lemma garch_loop_length:
  "length (garch_loop features returns i c results) = length results + (length returns - i)"
proof (induction "length returns - i" arbitrary: i c results)
  case 0
  then show ?case by (subst garch_loop.simps) simp
next
  case (Suc m)
  then have lt: "i < length returns" and m: "m = length returns - Suc i" by simp_all
  show ?case
    using lt by (subst garch_loop.simps) (simp add: Let_def Suc.hyps(1)[OF m])
qed

lemma condVar_closed_0: "condVar_closed 0 c = c"
  by (simp add: condVar_closed_def)

lemma condVar_closed_Suc: "condVar_closed n (garch_update c 0) = condVar_closed (Suc n) c"
  by (simp add: condVar_closed_def garch_update_def field_simps)

lemma condVar_closed_Suc': "garch_update (condVar_closed n c) 0 = condVar_closed (Suc n) c"
  by (simp add: condVar_closed_def garch_update_def field_simps)

lemma garch_loop_zero:
  "\<forall>t < length returns. returns ! t = 0 \<Longrightarrow>
   garch_loop features returns i c results
   = results @ map (garch_point_zero features c i) [i..<length returns]"
proof (induction "length returns - i" arbitrary: i c results)
  case 0
  then show ?case by (subst garch_loop.simps) simp
next
  case (Suc m)
  then have lt: "i < length returns" and m: "m = length returns - Suc i" by simp_all
  with Suc.prems have r: "returns ! i = 0" by simp
  have p: "garch_point_zero features (garch_update c 0) (Suc i) t = garch_point_zero features c i t"
    if "Suc i \<le> t" for t
  proof -
    from that have "Suc (t - Suc i) = t - i" by simp
    then show ?thesis
      by (simp add: garch_point_zero_def condVar_closed_Suc)
  qed
  have "garch_loop features returns i c results
        = garch_loop features returns (Suc i) (garch_update c 0)
            (results @ [garch_point_zero features c i i])"
    using lt r by (subst garch_loop.simps) (simp add: Let_def garch_point_zero_def condVar_closed_0)
  also have "\<dots> = (results @ [garch_point_zero features c i i])
                    @ map (garch_point_zero features (garch_update c 0) (Suc i)) [Suc i..<length returns]"
    by (rule Suc.hyps(1)[OF m Suc.prems])
  also have "map (garch_point_zero features (garch_update c 0) (Suc i)) [Suc i..<length returns]
             = map (garch_point_zero features c i) [Suc i..<length returns]"
    by (rule map_cong) (simp_all add: p)
  finally show ?case using lt by (simp add: upt_conv_Cons)
qed

lemma foldl_garch_zero:
  "\<forall>r \<in> set rs. r = 0 \<Longrightarrow> foldl garch_update c rs = condVar_closed (length rs) c"
proof (induction rs rule: rev_induct)
  case Nil
  then show ?case by (simp add: condVar_closed_0)
next
  case (snoc x xs)
  then show ?case by (simp add: condVar_closed_Suc')
qed

lemma returns_of_length: "length (returns_of prices) = length prices - 1"
  by (simp add: returns_of_def map_idx_def)

lemma run_arimaResults:
  "arimaResults (runTimeSeriesAnalysis features)
   = map (arima_point features (map midPrice_f features))
       [trainSize_of (map midPrice_f features)..<length features]"
  using arima_loop_map[where prices = "map midPrice_f features" and features = features
      and i = "trainSize_of (map midPrice_f features)" and results = "[]", OF trainSize_le]
  by (simp add: runTimeSeriesAnalysis_def Let_def slice_def)

lemma run_garchResults:
  "garchResults (runTimeSeriesAnalysis features)
   = garch_loop features (returns_of (map midPrice_f features)) (trainSize_of (map midPrice_f features))
       (garch_warmup (returns_of (map midPrice_f features)) (trainSize_of (map midPrice_f features))) []"
  by (simp add: runTimeSeriesAnalysis_def Let_def)

lemma run_lengths:
  "length (arimaResults (runTimeSeriesAnalysis features))
     = length features - trainSize_of (map midPrice_f features)"
  "length (garchResults (runTimeSeriesAnalysis features))
     = length features - 1 - trainSize_of (map midPrice_f features)"
  by (simp_all add: run_arimaResults run_garchResults garch_loop_length returns_of_length)

lemma condVar_closed_add: "condVar_closed a (condVar_closed b c) = condVar_closed (a + b) c"
proof (induction a)
  case 0
  show ?case by (simp add: condVar_closed_0)
next
  case (Suc a)
  have "condVar_closed (Suc a) (condVar_closed b c) = garch_update (condVar_closed a (condVar_closed b c)) 0"
    by (simp only: condVar_closed_Suc')
  also have "\<dots> = garch_update (condVar_closed (a + b) c) 0" by (simp only: Suc.IH)
  also have "\<dots> = condVar_closed (Suc a + b) c" by (simp only: condVar_closed_Suc' add_Suc)
  finally show ?case .
qed

lemma trainSize_le_returns:
  "trainSize_of prices \<le> length (returns_of prices)"
proof (cases "prices = []")
  case True
  then show ?thesis by (simp add: trainSize_of_div)
next
  case False
  from trainSize_less[OF this] show ?thesis by (simp add: returns_of_length)
qed

lemma garch_warmup_zero:
  assumes "\<forall>r \<in> set (returns_of prices). r = 0"
  shows "garch_warmup (returns_of prices) (trainSize_of prices) = condVar_closed (trainSize_of prices) 0.0001"
proof -
  have "\<forall>r \<in> set (take (trainSize_of prices) (returns_of prices)). r = 0"
    using assms by (meson in_set_takeD)
  from foldl_garch_zero[OF this] show ?thesis
    using trainSize_le_returns[of prices] by (simp add: garch_warmup_def slice_def)
qed

lemma garchResults_zero:
  assumes "\<forall>r \<in> set (returns_of (map midPrice_f features)). r = 0"
    and "j < length (garchResults (runTimeSeriesAnalysis features))"
  shows "garchResults (runTimeSeriesAnalysis features) ! j
         = garch_point_zero features (condVar_closed (trainSize_of (map midPrice_f features)) 0.0001)
             (trainSize_of (map midPrice_f features)) (trainSize_of (map midPrice_f features) + j)"
proof -
  let ?rs = "returns_of (map midPrice_f features)" and ?k = "trainSize_of (map midPrice_f features)"
  have z: "\<forall>t < length ?rs. ?rs ! t = 0" using assms(1) by simp
  have eq: "garchResults (runTimeSeriesAnalysis features)
        = map (garch_point_zero features (condVar_closed ?k 0.0001) ?k) [?k..<length ?rs]"
    unfolding run_garchResults garch_warmup_zero[OF assms(1)] garch_loop_zero[OF z] by simp
  from assms(2) have "j < length ?rs - ?k" unfolding eq by simp
  then show ?thesis unfolding eq by simp
qed

lemma condVar_closed_decreasing: "condVar_closed (Suc n) 0.0001 < condVar_closed n 0.0001"
proof -
  have x: "0 < (beta::real) ^ n * 0.000005" by simp
  have eq: "condVar_closed (Suc n) 0.0001 - condVar_closed n 0.0001 = - (beta ^ n * 0.000005)"
    unfolding condVar_closed_def power_Suc by (simp add: field_simps)
  have gen: "a - b = - e \<Longrightarrow> 0 < e \<Longrightarrow> a < b" for a b e :: real
    by linarith
  show ?thesis by (rule gen[OF eq x])
qed

lemma condVar_closed_seed: "condVar_closed n 0.0001 \<noteq> omega * (1 - beta ^ n) / (1 - beta)"
proof
  assume "condVar_closed n 0.0001 = omega * (1 - beta ^ n) / (1 - beta)"
  then have "omega * (1 - beta ^ n) / (1 - beta) + beta ^ n * 0.0001 = omega * (1 - beta ^ n) / (1 - beta)"
    unfolding condVar_closed_def .
  then have "(beta::real) ^ n * 0.0001 = 0" by (simp only: add_cancel_left_right)
  then show False by simp
qed

lemma fold_diffs:
  "fold (\<lambda>j s. if j = 0 then s else s + (arr ! j - arr ! (j - 1))) [0..<n] s0
   = s0 + (\<Sum>j = 1..<n. arr ! j - arr ! (j - 1))"
proof (induction n)
  case 0
  show ?case by simp
next
  case (Suc n)
  show ?case
  proof (cases "n = 0")
    case True
    then show ?thesis by simp
  next
    case False
    then have "1 \<le> n" by simp
    then show ?thesis using Suc.IH by (simp add: sum.atLeastLessThan_Suc add.assoc)
  qed
qed

lemma avgChange_of_sum:
  "avgChange_of history
   = (\<Sum>j = 1..<length (slice_last 10 history).
        slice_last 10 history ! j - slice_last 10 history ! (j - 1)) / 9"
  unfolding avgChange_of_def reduce_idx_def by (simp add: fold_diffs)

lemma avgChange_of_long:
  assumes "10 \<le> length history"
  shows "avgChange_of history
         = (\<Sum>j = 1..<10. history ! (length history - 10 + j) - history ! (length history - 10 + j - 1)) / 9"
proof -
  have len: "length (slice_last 10 history) = 10" using assms by (simp add: slice_last_def)
  have "(\<Sum>j = 1..<10. slice_last 10 history ! j - slice_last 10 history ! (j - 1))
        = (\<Sum>j = 1..<10. history ! (length history - 10 + j) - history ! (length history - 10 + j - 1))"
    using assms by (intro sum.cong refl) (simp add: slice_last_def)
  then show ?thesis unfolding avgChange_of_sum len by simp
qed

lemma arima_predict_take_long:
  assumes "10 \<le> i" "i \<le> length prices"
  shows "arima_predict (take i prices)
         = prices ! (i - 1) + 0.7 * ((\<Sum>t = 1..<10. prices ! (i - 10 + t) - prices ! (i - 10 + t - 1)) / 9)"
proof -
  have len: "length (take i prices) = i" using assms by simp
  have "(\<Sum>t = 1..<10. take i prices ! (i - 10 + t) - take i prices ! (i - 10 + t - 1))
        = (\<Sum>t = 1..<10. prices ! (i - 10 + t) - prices ! (i - 10 + t - 1))"
  proof (intro sum.cong refl)
    fix t :: nat assume "t \<in> {1..<10}"
    then have "i - 10 + t < i" "i - 10 + t - 1 < i" using assms by auto
    then show "take i prices ! (i - 10 + t) - take i prices ! (i - 10 + t - 1)
               = prices ! (i - 10 + t) - prices ! (i - 10 + t - 1)"
      by simp
  qed
  moreover have "take i prices ! (i - 1) = prices ! (i - 1)" using assms by simp
  ultimately show ?thesis
    unfolding arima_predict_def using avgChange_of_long[of "take i prices"] assms by (simp add: len)
qed

lemma run_arima_nth:
  assumes "j < length features - trainSize_of (map midPrice_f features)"
  shows "arimaResults (runTimeSeriesAnalysis features) ! j
         = arima_point features (map midPrice_f features) (trainSize_of (map midPrice_f features) + j)"
  using assms unfolding run_arimaResults by simp

lemma const_prices: "map midPrice_f features_const = replicate 11 100"
  by (simp add: features_const_def flat_feature_def)

lemma const_returns: "returns_of (map midPrice_f features_const) = replicate 10 0"
proof -
  have "returns_of (replicate 11 (100::real)) = map (\<lambda>i. 0) [0..<10]"
    unfolding returns_of_def map_idx_def by (rule map_cong) simp_all
  then show ?thesis by (simp add: const_prices map_replicate_const)
qed

lemma const_trainSize: "trainSize_of (map midPrice_f features_const) = 8"
  by (simp add: const_prices trainSize_of_div)

lemma const_length: "length (garchResults (runTimeSeriesAnalysis features_const)) = 2"
  by (simp add: run_lengths const_trainSize) (simp add: features_const_def)

lemma ramp_nth: "x < 13 \<Longrightarrow> midPrice_f (features_ramp ! x) = 100 + real x"
  by (simp add: features_ramp_def flat_feature_def)

lemma ramp_trainSize: "trainSize_of (map midPrice_f features_ramp) = 10"
  by (simp add: trainSize_of_div features_ramp_def)

lemma ramp_length: "length features_ramp = 13"
  by (simp add: features_ramp_def)

lemma five_prices: "map midPrice_f features_five = [100, 101, 103, 106, 110]"
  by (simp add: features_five_def flat_feature_def)

lemma five_trainSize: "trainSize_of (map midPrice_f features_five) = 4"
  by (simp add: five_prices trainSize_of_div)

lemma five_length: "length features_five = 5"
  by (simp add: features_five_def)

lemma upt_0_4: "[0..<4] = [0, 1, 2, 3]"
  by (simp add: upt_rec)

lemma predict_five: "arima_predict [100, 101, 103, 106] = 1597 / 15"
  unfolding arima_predict_def avgChange_of_def reduce_idx_def slice_last_def
  by (simp add: upt_0_4)

lemma ramp_diffs:
  "(\<Sum>t = 1..<10. midPrice_f (features_ramp ! (10 + 0 - 10 + t))
                        - midPrice_f (features_ramp ! (10 + 0 - 10 + t - 1))) = 9"
proof -
  have "(\<Sum>t = 1..<10. midPrice_f (features_ramp ! (10 + 0 - 10 + t))
                        - midPrice_f (features_ramp ! (10 + 0 - 10 + t - 1)))
        = (\<Sum>t = (1::nat)..<10. (1::real))"
  proof (intro sum.cong refl)
    fix t :: nat assume "t \<in> {1..<10}"
    then have t: "t < 13" "t - 1 < 13" "1 \<le> t" by auto
    have "10 + 0 - 10 + t = t" by simp
    then show "midPrice_f (features_ramp ! (10 + 0 - 10 + t))
               - midPrice_f (features_ramp ! (10 + 0 - 10 + t - 1)) = 1"
      using t by (simp add: ramp_nth of_nat_diff)
  qed
  then show ?thesis by simp
qed

section \<open>Claims about the analysis\<close>

text \<open>
  \<^bold>\<open>C2\<close>, as amended. With the seed \<open>0.0001\<close>, \<open>omega = 0.00001\<close>, \<open>alpha = 0.1\<close>,
  \<open>beta = 0.85\<close> and every return equal to \<open>0\<close> (the mid prices being non-zero), the
  conditional variance after the \<open>k\<close> warm-up updates is
  \<open>omega * (1 - beta ^ k) / (1 - beta) + beta ^ k * 0.0001\<close>, where \<open>k\<close> is the size of the
  training region. The \<open>j\<close>-th point emitted afterwards carries the same expression at
  \<open>k + j\<close> as its conditional variance, and its forecast is the square root of its own
  conditional variance. The equations are those of exact arithmetic.
\<close>

theorem garch_zero_returns:
  assumes "\<forall>p \<in> set (map midPrice_f features). p \<noteq> 0"
    and "\<forall>r \<in> set (returns_of (map midPrice_f features)). r = 0"
  shows "garch_warmup (returns_of (map midPrice_f features)) (trainSize_of (map midPrice_f features))
           = omega * (1 - beta ^ trainSize_of (map midPrice_f features)) / (1 - beta)
             + beta ^ trainSize_of (map midPrice_f features) * 0.0001
       \<and> (\<forall>j < length (garchResults (runTimeSeriesAnalysis features)).
            conditionalVariance (garchResults (runTimeSeriesAnalysis features) ! j)
              = omega * (1 - beta ^ (trainSize_of (map midPrice_f features) + j)) / (1 - beta)
                + beta ^ (trainSize_of (map midPrice_f features) + j) * 0.0001
          \<and> forecastVolatility (garchResults (runTimeSeriesAnalysis features) ! j)
              = sqrt (conditionalVariance (garchResults (runTimeSeriesAnalysis features) ! j)))"
proof (intro conjI allI impI)
  show "garch_warmup (returns_of (map midPrice_f features)) (trainSize_of (map midPrice_f features))
           = omega * (1 - beta ^ trainSize_of (map midPrice_f features)) / (1 - beta)
             + beta ^ trainSize_of (map midPrice_f features) * 0.0001"
    unfolding garch_warmup_zero[OF assms(2)] condVar_closed_def ..
next
  fix j assume j: "j < length (garchResults (runTimeSeriesAnalysis features))"
  note p = garchResults_zero[OF assms(2) j]
  show "conditionalVariance (garchResults (runTimeSeriesAnalysis features) ! j)
              = omega * (1 - beta ^ (trainSize_of (map midPrice_f features) + j)) / (1 - beta)
                + beta ^ (trainSize_of (map midPrice_f features) + j) * 0.0001"
    unfolding p by (simp add: garch_point_zero_def condVar_closed_add) (simp add: condVar_closed_def add.commute)
  show "forecastVolatility (garchResults (runTimeSeriesAnalysis features) ! j)
              = sqrt (conditionalVariance (garchResults (runTimeSeriesAnalysis features) ! j))"
    unfolding p by (simp add: garch_point_zero_def)
qed

theorem garch_zero_returns_witness:
  "conditionalVariance (garchResults (runTimeSeriesAnalysis features_const) ! 0)
     = omega * (1 - beta ^ 8) / (1 - beta) + beta ^ 8 * 0.0001
   \<and> conditionalVariance (garchResults (runTimeSeriesAnalysis features_const) ! 1)
     = omega * (1 - beta ^ 9) / (1 - beta) + beta ^ 9 * 0.0001"
proof -
  have 1: "\<forall>p \<in> set (map midPrice_f features_const). p \<noteq> 0" by (simp add: const_prices)
  have 2: "\<forall>r \<in> set (returns_of (map midPrice_f features_const)). r = 0" by (simp add: const_returns)
  from garch_zero_returns[OF 1 2] show ?thesis
    unfolding const_length const_trainSize by (simp del: power_numeral)
qed

text \<open>
  \<^bold>\<open>C2\<close>, as stated, fails on eleven feature vectors with the mid price \<open>100\<close>: every
  return is \<open>0\<close>, the warm-up makes eight updates, the first emitted conditional variance
  is not \<open>omega * (1 - beta ^ 8) / (1 - beta)\<close>, and the two emitted forecasts differ.
\<close>

theorem garch_closed_form_counterexample:
  "set (returns_of (map midPrice_f features_const)) = {0}
   \<and> trainSize_of (map midPrice_f features_const) = 8
   \<and> conditionalVariance (garchResults (runTimeSeriesAnalysis features_const) ! 0)
       \<noteq> omega * (1 - beta ^ 8) / (1 - beta)
   \<and> forecastVolatility (garchResults (runTimeSeriesAnalysis features_const) ! 0)
       \<noteq> forecastVolatility (garchResults (runTimeSeriesAnalysis features_const) ! 1)"
proof -
  have 2: "\<forall>r \<in> set (returns_of (map midPrice_f features_const)). r = 0" by (simp add: const_returns)
  have p0: "garchResults (runTimeSeriesAnalysis features_const) ! 0
            = garch_point_zero features_const (condVar_closed 8 0.0001) 8 8"
    using garchResults_zero[OF 2, of 0] by (simp add: const_length const_trainSize)
  have p1: "garchResults (runTimeSeriesAnalysis features_const) ! 1
            = garch_point_zero features_const (condVar_closed 8 0.0001) 8 9"
    using garchResults_zero[OF 2, of 1] by (simp add: const_length const_trainSize)
  have cv0: "conditionalVariance (garchResults (runTimeSeriesAnalysis features_const) ! 0)
             = condVar_closed 8 0.0001"
    unfolding p0 by (simp add: garch_point_zero_def condVar_closed_0)
  have fv0: "forecastVolatility (garchResults (runTimeSeriesAnalysis features_const) ! 0)
             = sqrt (condVar_closed 8 0.0001)"
    unfolding p0 by (simp add: garch_point_zero_def condVar_closed_0)
  have "condVar_closed (9 - 8) (condVar_closed 8 0.0001) = condVar_closed 9 0.0001"
    unfolding condVar_closed_add by simp
  then have fv1: "forecastVolatility (garchResults (runTimeSeriesAnalysis features_const) ! 1)
             = sqrt (condVar_closed 9 0.0001)"
    unfolding p1 by (simp add: garch_point_zero_def)
  have n1: "condVar_closed 8 0.0001 \<noteq> omega * (1 - beta ^ 8) / (1 - beta)"
    by (rule condVar_closed_seed)
  have n2: "condVar_closed 8 0.0001 \<noteq> condVar_closed 9 0.0001"
    using condVar_closed_decreasing[of 8] by simp
  show ?thesis
    unfolding cv0 fv0 fv1 using n1 n2 by (simp add: const_returns const_trainSize)
qed

text \<open>
  \<^bold>\<open>C7\<close>, as amended. The analysis has no error outcome: it returns its streams for
  every feature sequence. For the empty sequence the three streams are empty. For a
  non-empty sequence of length \<open>m\<close> with training size \<open>k\<close> it returns \<open>m - k \<ge> 1\<close> price
  points and \<open>m - 1 - k\<close> volatility points, whatever the length of the training region.
\<close>

theorem analysis_always_returns:
  "(features = [] \<longrightarrow>
      arimaResults (runTimeSeriesAnalysis features) = []
      \<and> garchResults (runTimeSeriesAnalysis features) = []
      \<and> volatilityRegimes (runTimeSeriesAnalysis features) = [])
   \<and> (features \<noteq> [] \<longrightarrow>
      length (arimaResults (runTimeSeriesAnalysis features))
        = length features - trainSize_of (map midPrice_f features)
      \<and> 1 \<le> length (arimaResults (runTimeSeriesAnalysis features))
      \<and> length (garchResults (runTimeSeriesAnalysis features))
        = length features - 1 - trainSize_of (map midPrice_f features))"
proof (intro conjI impI)
  assume "features = []"
  then show "arimaResults (runTimeSeriesAnalysis features) = []"
    "garchResults (runTimeSeriesAnalysis features) = []"
    "volatilityRegimes (runTimeSeriesAnalysis features) = []"
    using run_lengths[of features]
    by (simp_all add: runTimeSeriesAnalysis_def Let_def slice_last_def)
next
  assume ne: "features \<noteq> []"
  then have lt: "trainSize_of (map midPrice_f features) < length features"
    using trainSize_less[of "map midPrice_f features"] by simp
  show "length (arimaResults (runTimeSeriesAnalysis features))
        = length features - trainSize_of (map midPrice_f features)"
    and "length (garchResults (runTimeSeriesAnalysis features))
        = length features - 1 - trainSize_of (map midPrice_f features)"
    by (rule run_lengths)+
  show "1 \<le> length (arimaResults (runTimeSeriesAnalysis features))"
    using lt by (simp add: run_lengths)
qed

theorem analysis_always_returns_witness:
  "length (arimaResults (runTimeSeriesAnalysis features_five)) = 1
   \<and> garchResults (runTimeSeriesAnalysis features_five) = []
   \<and> arimaResults (runTimeSeriesAnalysis []) = []
   \<and> garchResults (runTimeSeriesAnalysis []) = []"
proof -
  have ne: "features_five \<noteq> []" by (simp add: features_five_def)
  note T = analysis_always_returns[of features_five, unfolded five_trainSize five_length]
  from T ne have l: "length (arimaResults (runTimeSeriesAnalysis features_five)) = 5 - 4"
    and g: "length (garchResults (runTimeSeriesAnalysis features_five)) = 5 - 1 - 4"
    by blast+
  have e: "arimaResults (runTimeSeriesAnalysis []) = []" "garchResults (runTimeSeriesAnalysis []) = []"
    using analysis_always_returns[of "[]"] by blast+
  show ?thesis using l g e by simp
qed

text \<open>
  \<^bold>\<open>C7\<close>, as stated, fails on five feature vectors with the mid prices
  \<open>100, 101, 103, 106, 110\<close>: the training region has four mid prices, and the analysis
  returns one price point; on the empty sequence it returns empty streams.
\<close>

theorem analysis_unavailable_counterexample:
  "trainSize_of (map midPrice_f features_five) = 4
   \<and> arimaResults (runTimeSeriesAnalysis features_five)
       = [\<lparr>timestamp_a = 0, actual = 110, predicted = 1597 / 15, error = 53 / 15\<rparr>]
   \<and> garchResults (runTimeSeriesAnalysis features_five) = []
   \<and> arimaResults (runTimeSeriesAnalysis []) = []
   \<and> garchResults (runTimeSeriesAnalysis []) = []"
proof -
  have pt: "arima_point features_five [100, 101, 103, 106, 110] 4
        = \<lparr>timestamp_a = 0, actual = 110, predicted = 1597 / 15, error = 53 / 15\<rparr>"
    by (simp add: arima_point_def predict_five features_five_def flat_feature_def)
  have u: "[4..<5] = [4::nat]" by (simp add: upt_rec)
  have "arimaResults (runTimeSeriesAnalysis features_five)
        = map (arima_point features_five (map midPrice_f features_five)) [4..<5]"
    unfolding run_arimaResults five_trainSize five_length ..
  then have a: "arimaResults (runTimeSeriesAnalysis features_five)
       = [\<lparr>timestamp_a = 0, actual = 110, predicted = 1597 / 15, error = 53 / 15\<rparr>]"
    unfolding u five_prices by (simp add: pt)
  have g: "length (garchResults (runTimeSeriesAnalysis features_five)) = 0"
    unfolding run_lengths five_trainSize five_length by simp
  have e: "length (arimaResults (runTimeSeriesAnalysis [])) = 0"
    "length (garchResults (runTimeSeriesAnalysis [])) = 0"
    unfolding run_lengths by simp_all
  show ?thesis using a g e by (simp add: five_trainSize)
qed

text \<open>
  \<^bold>\<open>C8\<close>. When the training region holds at least ten mid prices, the \<open>j\<close>-th price
  point belongs to the test index \<open>i = k + j\<close>: its actual value is the mid price at \<open>i\<close>,
  its prediction is the mid price at \<open>i - 1\<close> plus \<open>0.7\<close> times the mean of the nine first
  differences over the mid prices at \<open>i - 10, \<dots>, i - 1\<close>, and its error is the actual value
  minus the prediction. The prediction is the same for any other feature sequence of the
  same length that has the same mid prices before \<open>i\<close>.
\<close>

theorem price_predictor_walk_forward:
  assumes "10 \<le> trainSize_of (map midPrice_f features)"
    and "j < length features - trainSize_of (map midPrice_f features)"
  shows "length (arimaResults (runTimeSeriesAnalysis features))
           = length features - trainSize_of (map midPrice_f features)
       \<and> actual (arimaResults (runTimeSeriesAnalysis features) ! j)
           = midPrice_f (features ! (trainSize_of (map midPrice_f features) + j))
       \<and> predicted (arimaResults (runTimeSeriesAnalysis features) ! j)
           = midPrice_f (features ! (trainSize_of (map midPrice_f features) + j - 1))
             + 0.7 * ((\<Sum>t = 1..<10.
                         midPrice_f (features ! (trainSize_of (map midPrice_f features) + j - 10 + t))
                         - midPrice_f (features ! (trainSize_of (map midPrice_f features) + j - 10 + t - 1))) / 9)
       \<and> error (arimaResults (runTimeSeriesAnalysis features) ! j)
           = actual (arimaResults (runTimeSeriesAnalysis features) ! j)
             - predicted (arimaResults (runTimeSeriesAnalysis features) ! j)
       \<and> (\<forall>features'. length features' = length features
              \<and> take (trainSize_of (map midPrice_f features) + j) (map midPrice_f features')
                  = take (trainSize_of (map midPrice_f features) + j) (map midPrice_f features)
            \<longrightarrow> predicted (arimaResults (runTimeSeriesAnalysis features') ! j)
                = predicted (arimaResults (runTimeSeriesAnalysis features) ! j))"
proof -
  let ?prices = "map midPrice_f features" and ?k = "trainSize_of (map midPrice_f features)"
  let ?i = "?k + j"
  have i: "10 \<le> ?i" "?i < length features" using assms by simp_all
  note p = run_arima_nth[OF assms(2)]
  have nth: "?prices ! x = midPrice_f (features ! x)" if "x < length features" for x
    using that by simp
  have sum_eq: "(\<Sum>t = 1..<10. ?prices ! (?i - 10 + t) - ?prices ! (?i - 10 + t - 1))
        = (\<Sum>t = 1..<10. midPrice_f (features ! (?i - 10 + t)) - midPrice_f (features ! (?i - 10 + t - 1)))"
  proof (intro sum.cong refl)
    fix t :: nat assume "t \<in> {1..<10}"
    then have "?i - 10 + t < length features" "?i - 10 + t - 1 < length features" using i by auto
    then show "?prices ! (?i - 10 + t) - ?prices ! (?i - 10 + t - 1)
               = midPrice_f (features ! (?i - 10 + t)) - midPrice_f (features ! (?i - 10 + t - 1))"
      by (simp only: nth)
  qed
  have pred: "predicted (arimaResults (runTimeSeriesAnalysis features) ! j)
           = midPrice_f (features ! (?i - 1))
             + 0.7 * ((\<Sum>t = 1..<10. midPrice_f (features ! (?i - 10 + t))
                         - midPrice_f (features ! (?i - 10 + t - 1))) / 9)"
    unfolding p arima_point_def using arima_predict_take_long[of ?i ?prices] i sum_eq
    by (simp add: nth)
  have leak: "predicted (arimaResults (runTimeSeriesAnalysis features') ! j)
                = predicted (arimaResults (runTimeSeriesAnalysis features) ! j)"
    if len: "length features' = length features"
      and tk: "take ?i (map midPrice_f features') = take ?i ?prices" for features'
  proof -
    have k: "trainSize_of (map midPrice_f features') = ?k"
      using len by (simp add: trainSize_of_div)
    have "j < length features' - trainSize_of (map midPrice_f features')"
      using assms(2) len k by simp
    from run_arima_nth[OF this] show ?thesis
      unfolding p k arima_point_def by (simp add: tk)
  qed
  show ?thesis
    using pred leak i by (simp add: run_lengths p arima_point_def)
qed

theorem price_predictor_walk_forward_witness:
  "actual (arimaResults (runTimeSeriesAnalysis features_ramp) ! 0) = 110
   \<and> predicted (arimaResults (runTimeSeriesAnalysis features_ramp) ! 0) = 109.7
   \<and> error (arimaResults (runTimeSeriesAnalysis features_ramp) ! 0) = 0.3"
proof -
  have 1: "10 \<le> trainSize_of (map midPrice_f features_ramp)" by (simp add: ramp_trainSize)
  have 2: "0 < length features_ramp - trainSize_of (map midPrice_f features_ramp)"
    by (simp add: ramp_trainSize ramp_length)
  note T = price_predictor_walk_forward[OF 1 2, unfolded ramp_trainSize ramp_diffs]
  from T have a: "actual (arimaResults (runTimeSeriesAnalysis features_ramp) ! 0)
                  = midPrice_f (features_ramp ! (10 + 0))"
    by (rule conjunct1[OF conjunct2])
  from T have p: "predicted (arimaResults (runTimeSeriesAnalysis features_ramp) ! 0)
                  = midPrice_f (features_ramp ! (10 + 0 - 1)) + 0.7 * (9 / 9)"
    by (rule conjunct1[OF conjunct2[OF conjunct2]])
  from T have e: "error (arimaResults (runTimeSeriesAnalysis features_ramp) ! 0)
           = actual (arimaResults (runTimeSeriesAnalysis features_ramp) ! 0)
             - predicted (arimaResults (runTimeSeriesAnalysis features_ramp) ! 0)"
    by (rule conjunct1[OF conjunct2[OF conjunct2[OF conjunct2]]])
  have a': "actual (arimaResults (runTimeSeriesAnalysis features_ramp) ! 0) = 110"
    unfolding a by (simp add: ramp_nth)
  have p': "predicted (arimaResults (runTimeSeriesAnalysis features_ramp) ! 0) = 109.7"
    unfolding p by (simp add: ramp_nth)
  show ?thesis unfolding e a' p' by simp
qed

text \<open>
  \<^bold>\<open>C10\<close>. For a non-empty feature sequence of length \<open>m\<close> and
  \<open>trainSize = \<lfloor>0.8 * m\<rfloor>\<close>, the analysis returns \<open>m - trainSize\<close> price points and
  \<open>m - 1 - trainSize\<close> volatility points, one fewer; the two metrics are computed over
  these streams.
\<close>

theorem forecast_stream_lengths:
  assumes "features \<noteq> []"
  shows "length (arimaResults (runTimeSeriesAnalysis features))
           = length features - trainSize_of (map midPrice_f features)
       \<and> length (garchResults (runTimeSeriesAnalysis features))
           = length features - 1 - trainSize_of (map midPrice_f features)
       \<and> length (arimaResults (runTimeSeriesAnalysis features))
           = length (garchResults (runTimeSeriesAnalysis features)) + 1
       \<and> trainSize_of (map midPrice_f features) = nat \<lfloor>0.8 * real (length features)\<rfloor>
       \<and> arima (metrics (runTimeSeriesAnalysis features))
           = calcMetrics (map actual (arimaResults (runTimeSeriesAnalysis features)))
               (map predicted (arimaResults (runTimeSeriesAnalysis features)))
       \<and> garch (metrics (runTimeSeriesAnalysis features))
           = calcMetrics (map actualVolatility (garchResults (runTimeSeriesAnalysis features)))
               (map forecastVolatility (garchResults (runTimeSeriesAnalysis features)))"
proof -
  from assms have "trainSize_of (map midPrice_f features) < length features"
    using trainSize_less[of "map midPrice_f features"] by simp
  then have "length (arimaResults (runTimeSeriesAnalysis features))
           = length features - trainSize_of (map midPrice_f features)
       \<and> length (garchResults (runTimeSeriesAnalysis features))
           = length features - 1 - trainSize_of (map midPrice_f features)
       \<and> length (arimaResults (runTimeSeriesAnalysis features))
           = length (garchResults (runTimeSeriesAnalysis features)) + 1
       \<and> trainSize_of (map midPrice_f features) = nat \<lfloor>0.8 * real (length features)\<rfloor>"
    by (simp add: run_lengths trainSize_of_def mult.commute)
  moreover have "arima (metrics (runTimeSeriesAnalysis features))
           = calcMetrics (map actual (arimaResults (runTimeSeriesAnalysis features)))
               (map predicted (arimaResults (runTimeSeriesAnalysis features)))"
    "garch (metrics (runTimeSeriesAnalysis features))
           = calcMetrics (map actualVolatility (garchResults (runTimeSeriesAnalysis features)))
               (map forecastVolatility (garchResults (runTimeSeriesAnalysis features)))"
    by (simp_all add: runTimeSeriesAnalysis_def Let_def)
  ultimately show ?thesis by blast
qed

theorem forecast_stream_lengths_witness:
  "length (arimaResults (runTimeSeriesAnalysis features_const)) = 3
   \<and> length (garchResults (runTimeSeriesAnalysis features_const)) = 2"
proof -
  have "features_const \<noteq> []" by (simp add: features_const_def)
  from forecast_stream_lengths[OF this] have
    "length (arimaResults (runTimeSeriesAnalysis features_const))
       = length features_const - trainSize_of (map midPrice_f features_const)"
    "length (garchResults (runTimeSeriesAnalysis features_const))
       = length features_const - 1 - trainSize_of (map midPrice_f features_const)"
    by blast+
  then show ?thesis
    by (simp add: features_const_def trainSize_of_div)
qed

end
